theory Spec2Isabelle
  imports
    Complex_Main
    "HOL-Library.AList"
    "HOL-Library.Char_ord"
    "HOL-Library.List_Lexorder"
    "HOL-Library.Multiset"
    "HOL-Library.Product_Lexorder"
begin

section \<open>Data model\<close>

text \<open>
  Both scripts work on a pandas \<^verbatim>\<open>DataFrame\<close> obtained from \<^verbatim>\<open>pd.read_csv\<close>.
  A loaded table is an ordered list of named columns; \<^verbatim>\<open>read_csv\<close> gives every column its
  own name, and \<open>map_of df n\<close> is the column \<^verbatim>\<open>df[n]\<close>. A column is either numeric
  (dtype \<^verbatim>\<open>int64\<close>/\<^verbatim>\<open>float64\<close>, the columns that
  \<^verbatim>\<open>select_dtypes(include=["number"])\<close> selects) or not (dtype \<^verbatim>\<open>object\<close>, text).
  A missing entry (\<^verbatim>\<open>NaN\<close>) is \<open>None\<close>.

  Numbers are exact rationals: rounding, overflow and the infinities of \<^verbatim>\<open>float64\<close> are
  outside the model. A column read from a file in which every entry is empty is numeric
  in pandas (\<^verbatim>\<open>float64\<close>, all \<^verbatim>\<open>NaN\<close>); here it is \<open>NumCol\<close> of a list of \<open>None\<close>.
\<close>

datatype column = NumCol "rat option list" | ObjCol "string option list"

type_synonym dataframe = "(string \<times> column) list"

definition columns :: "dataframe \<Rightarrow> string list" where
  "columns df = map fst df"

text \<open>
  A single entry of a column, as a group key or a printed field. Within one column all
  present entries have the same constructor; the order between a number and a text is
  never consulted by the scripts and is fixed here only to make the order total.
\<close>

datatype cell = Num rat | Str string

instantiation cell :: linorder
begin

fun less_eq_cell :: "cell \<Rightarrow> cell \<Rightarrow> bool" where
  "less_eq_cell (Num a) (Num b) = (a \<le> b)"
| "less_eq_cell (Num a) (Str s) = True"
| "less_eq_cell (Str s) (Num b) = False"
| "less_eq_cell (Str s) (Str t) = (s \<le> t)"

definition less_cell :: "cell \<Rightarrow> cell \<Rightarrow> bool" where
  "less_cell x y = (x \<le> y \<and> \<not> y \<le> x)"

instance
proof
  fix x y z :: cell
  show "(x < y) = (x \<le> y \<and> \<not> y \<le> x)"
    by (simp add: less_cell_def)
  show "x \<le> x"
    by (cases x) simp_all
  show "x \<le> y \<Longrightarrow> y \<le> z \<Longrightarrow> x \<le> z"
    by (cases x; cases y; cases z) auto
  show "x \<le> y \<Longrightarrow> y \<le> x \<Longrightarrow> x = y"
    by (cases x; cases y) auto
  show "x \<le> y \<or> y \<le> x"
    by (cases x; cases y) auto
qed

end

definition cells :: "column \<Rightarrow> cell option list" where
  "cells c = (case c of NumCol xs \<Rightarrow> map (map_option Num) xs
                      | ObjCol ss \<Rightarrow> map (map_option Str) ss)"

section \<open>Series operations used by the scripts\<close>

text \<open>\<^verbatim>\<open>s.isna().sum()\<close>: the number of missing entries.\<close>

definition isna_sum :: "'a option list \<Rightarrow> nat" where
  "isna_sum xs = length (filter (\<lambda>x. x = None) xs)"

text \<open>\<^verbatim>\<open>s.isna().any()\<close>.\<close>

definition isna_any :: "'a option list \<Rightarrow> bool" where
  "isna_any xs = list_ex (\<lambda>x. x = None) xs"

text \<open>The present entries of a series, in order.\<close>

definition present :: "'a option list \<Rightarrow> 'a list" where
  "present xs = concat (map (\<lambda>x. case x of None \<Rightarrow> [] | Some v \<Rightarrow> [v]) xs)"

text \<open>
  \<^verbatim>\<open>s.mean()\<close> with the default \<^verbatim>\<open>skipna=True\<close>: the sum of the present entries divided
  by their number, and \<^verbatim>\<open>NaN\<close> when there is none. This is the exact arithmetic mean of
  finite values. pandas computes it in \<^verbatim>\<open>float64\<close>: its result is this mean rounded, and
  it is \<^verbatim>\<open>NaN\<close> also when \<^verbatim>\<open>inf\<close> and \<^verbatim>\<open>-inf\<close> are both among the values. Where a
  property must not depend on that difference, the mean is a parameter (\<open>fill_gaps\<close>
  below).
\<close>

definition mean :: "rat option list \<Rightarrow> rat option" where
  "mean xs = (if present xs = [] then None
              else Some (sum_list (present xs) / of_nat (length (present xs))))"

text \<open>\<^verbatim>\<open>s.fillna(v)\<close>; filling with \<^verbatim>\<open>NaN\<close> leaves the series as it is.\<close>

definition fillna :: "'a option list \<Rightarrow> 'a option \<Rightarrow> 'a option list" where
  "fillna xs v = map (\<lambda>x. case x of None \<Rightarrow> v | Some y \<Rightarrow> Some y) xs"

section \<open>Ingestion pipeline: cleaning (\<^verbatim>\<open>data_analysis.py\<close>, step 2)\<close>

text \<open>\<^verbatim>\<open>df.select_dtypes(include=["number"]).columns.tolist()\<close>.\<close>

definition numeric_cols :: "dataframe \<Rightarrow> string list" where
  "numeric_cols df = map fst (filter (\<lambda>(n, c). case c of NumCol _ \<Rightarrow> True | ObjCol _ \<Rightarrow> False) df)"

text \<open>\<^verbatim>\<open>df[numeric_cols].isna().sum().sum()\<close>.\<close>

definition missing_total :: "dataframe \<Rightarrow> string list \<Rightarrow> nat" where
  "missing_total df cols =
     sum_list (map (\<lambda>n. case map_of df n of Some (NumCol xs) \<Rightarrow> isna_sum xs
                                          | Some (ObjCol ss) \<Rightarrow> isna_sum ss
                                          | None \<Rightarrow> 0) cols)"

text \<open>
  One round of the loop
  \<^verbatim>\<open>if df[col].isna().any(): df[col] = df[col].fillna(df[col].mean())\<close>.
\<close>

definition clean_step :: "string \<Rightarrow> dataframe \<Rightarrow> dataframe" where
  "clean_step col df =
     (case map_of df col of
        Some (NumCol xs) \<Rightarrow>
          if isna_any xs then AList.update col (NumCol (fillna xs (mean xs))) df else df
      | _ \<Rightarrow> df)"

definition clean :: "dataframe \<Rightarrow> dataframe" where
  "clean df = fold clean_step (numeric_cols df) df"

text \<open>
  What the loop body does to the column it visits, for any function \<open>mu\<close> in the place of
  \<^verbatim>\<open>mean()\<close> and any type of values: the column \<^verbatim>\<open>df[col]\<close> is kept when it has no gap
  and becomes \<^verbatim>\<open>df[col].fillna(df[col].mean())\<close> when it has one.
\<close>

definition fill_gaps :: "('v option list \<Rightarrow> 'v option) \<Rightarrow> 'v option list \<Rightarrow> 'v option list" where
  "fill_gaps mu xs = (if isna_any xs then fillna xs (mu xs) else xs)"

section \<open>Ingestion pipeline: column resolution (\<^verbatim>\<open>pick_col\<close>)\<close>

text \<open>
  \<^verbatim>\<open>pick_col\<close> reads the global table; the model passes it. \<^verbatim>\<open>None\<close> is \<open>None\<close>.
\<close>

fun pick_col :: "dataframe \<Rightarrow> string list \<Rightarrow> string option" where
  "pick_col df [] = None"
| "pick_col df (name # possible_names) =
     (if name \<in> set (columns df) then Some name else pick_col df possible_names)"

definition diet_names :: "string list" where
  "diet_names = [''Diet_type'', ''Diet Type'', ''diet_type'', ''diet'']"

definition recipe_names :: "string list" where
  "recipe_names = [''Recipe_name'', ''Recipe Name'', ''recipe_name'', ''Recipe'']"

definition cuisine_names :: "string list" where
  "cuisine_names = [''Cuisine_type'', ''Cuisine Type'', ''cuisine_type'', ''Cuisine'']"

definition protein_names :: "string list" where
  "protein_names = [''Protein(g)'', ''Protein'', ''protein'']"

definition carbs_names :: "string list" where
  "carbs_names = [''Carbs(g)'', ''Carbs'', ''carbs'', ''Carbohydrates(g)'', ''Carbohydrates'']"

definition fat_names :: "string list" where
  "fat_names = [''Fat(g)'', ''Fat'', ''fat'']"

text \<open>The list \<^verbatim>\<open>required\<close> of the six resolved names.\<close>

definition required :: "dataframe \<Rightarrow> string option list" where
  "required df =
     [pick_col df diet_names, pick_col df recipe_names, pick_col df cuisine_names,
      pick_col df protein_names, pick_col df carbs_names, pick_col df fat_names]"

section \<open>Grouping, aggregation and sorting\<close>

text \<open>
  Exceptions of either script. \<^verbatim>\<open>SystemExit\<close> carries the exit status; the three storage
  errors are those of the blob client (container exists, connection failed, blob not
  found); \<^verbatim>\<open>OSError\<close> is a failure to open or write the local file.
\<close>

datatype error =
    SystemExit nat
  | KeyError string
  | TypeError
  | ResourceExistsError
  | ServiceRequestError
  | ResourceNotFoundError
  | OSError

text \<open>
  \<^verbatim>\<open>df.groupby(col)\<close> with the defaults \<^verbatim>\<open>sort=True, dropna=True\<close>: the group keys are
  the distinct present entries of the key column in ascending order; rows whose key is
  missing belong to no group.
\<close>

definition group_keys :: "cell option list \<Rightarrow> cell list" where
  "group_keys ks = sort (remdups (present ks))"

text \<open>The entries of a value column in the rows of group \<open>k\<close>, in row order.\<close>

definition group_vals :: "cell option list \<Rightarrow> 'v list \<Rightarrow> cell \<Rightarrow> 'v list" where
  "group_vals ks vs k = map snd (filter (\<lambda>(k', v). k' = Some k) (zip ks vs))"

text \<open>One row of the aggregate table: a diet type and its three means.\<close>

record agg_row =
  diet_type :: cell
  mean_protein :: "rat option"
  mean_carbs :: "rat option"
  mean_fat :: "rat option"

text \<open>\<^verbatim>\<open>df.groupby(d)[[p, c, f]].mean()\<close> on the four columns.\<close>

definition groupby_mean ::
  "cell option list \<Rightarrow> rat option list \<Rightarrow> rat option list \<Rightarrow> rat option list \<Rightarrow> agg_row list"
where
  "groupby_mean ks ps cs fs =
     map (\<lambda>k. \<lparr>diet_type = k,
               mean_protein = mean (group_vals ks ps k),
               mean_carbs = mean (group_vals ks cs k),
               mean_fat = mean (group_vals ks fs k)\<rparr>) (group_keys ks)"

text \<open>
  Reading the columns of the table. A name that is not a column raises \<^verbatim>\<open>KeyError\<close>;
  the mean of a text column raises \<^verbatim>\<open>TypeError\<close> (pandas 2 and later).
\<close>

definition key_col :: "dataframe \<Rightarrow> string \<Rightarrow> error + cell option list" where
  "key_col df name = (case map_of df name of
                        None \<Rightarrow> Inl (KeyError name)
                      | Some c \<Rightarrow> Inr (cells c))"

definition num_col :: "dataframe \<Rightarrow> string \<Rightarrow> error + rat option list" where
  "num_col df name = (case map_of df name of
                        None \<Rightarrow> Inl (KeyError name)
                      | Some (NumCol xs) \<Rightarrow> Inr xs
                      | Some (ObjCol ss) \<Rightarrow> Inl TypeError)"

text \<open>Sequencing of steps that may raise: the first exception ends the computation.\<close>

fun and_then :: "error + 'a \<Rightarrow> ('a \<Rightarrow> error + 'b) \<Rightarrow> error + 'b" where
  "and_then (Inl e) f = Inl e"
| "and_then (Inr x) f = f x"

definition groupby_mean_df ::
  "dataframe \<Rightarrow> string \<Rightarrow> string \<Rightarrow> string \<Rightarrow> string \<Rightarrow> error + agg_row list"
where
  "groupby_mean_df df d p c f =
     and_then (key_col df d) (\<lambda>ks.
     and_then (num_col df p) (\<lambda>ps.
     and_then (num_col df c) (\<lambda>cs.
     and_then (num_col df f) (\<lambda>fs.
     Inr (groupby_mean ks ps cs fs)))))"

text \<open>
  \<^verbatim>\<open>sort_values(by=col, ascending=False)\<close>: descending by the column, missing values
  last. pandas leaves the relative order of rows with equal values open (its default
  sort is not stable); the model keeps them in their previous order, and no property
  below depends on that choice. The sort key sends a present value to its negation and
  a missing one behind every present one.
\<close>

definition desc_key :: "rat option \<Rightarrow> nat \<times> rat" where
  "desc_key v = (case v of None \<Rightarrow> (1, 0) | Some x \<Rightarrow> (0, - x))"

definition sort_values_desc :: "('r \<Rightarrow> rat option) \<Rightarrow> 'r list \<Rightarrow> 'r list" where
  "sort_values_desc col rows = sort_key (\<lambda>r. desc_key (col r)) rows"

text \<open>
  \<^verbatim>\<open>avg_macros\<close> of the pipeline:
  \<^verbatim>\<open>df.groupby(diet_col)[[protein_col, carbs_col, fat_col]].mean().sort_values(by=protein_col, ascending=False)\<close>.
\<close>

definition avg_macros ::
  "dataframe \<Rightarrow> string \<Rightarrow> string \<Rightarrow> string \<Rightarrow> string \<Rightarrow> error + agg_row list"
where
  "avg_macros df d p c f =
     and_then (groupby_mean_df df d p c f) (\<lambda>g. Inr (sort_values_desc mean_protein g))"

section \<open>Top protein recipes per diet type\<close>

text \<open>
  A record of the dataset: the six resolved fields of one row, with the row's index
  label (its position in the file), which pandas keeps through sorting and selection.
\<close>

record row =
  idx :: nat
  diet :: "cell option"
  recipe :: "cell option"
  cuisine :: "cell option"
  protein :: "rat option"
  carbs :: "rat option"
  fat :: "rat option"

definition rows_of ::
  "cell option list \<Rightarrow> cell option list \<Rightarrow> cell option list \<Rightarrow>
   rat option list \<Rightarrow> rat option list \<Rightarrow> rat option list \<Rightarrow> row list"
where
  "rows_of ds rs cs ps bs fs =
     map (\<lambda>(i, d, r, c, p, b, f).
            \<lparr>idx = i, diet = d, recipe = r, cuisine = c, protein = p, carbs = b, fat = f\<rparr>)
         (zip [0..<length ds] (zip ds (zip rs (zip cs (zip ps (zip bs fs))))))"

text \<open>
  \<^verbatim>\<open>groupby(key).head(n)\<close>: the rows, in their order, that are among the first \<open>n\<close> of
  their group; rows whose key is missing are dropped. \<open>seen\<close> holds the keys of the rows
  already passed.
\<close>

fun groupby_head :: "nat \<Rightarrow> ('r \<Rightarrow> 'k option) \<Rightarrow> 'k list \<Rightarrow> 'r list \<Rightarrow> 'r list" where
  "groupby_head n key seen [] = []"
| "groupby_head n key seen (r # rs) =
     (case key r of
        None \<Rightarrow> groupby_head n key seen rs
      | Some k \<Rightarrow> (if count_list seen k < n then [r] else [])
                  @ groupby_head n key (k # seen) rs)"

text \<open>
  \<^verbatim>\<open>top5_by_diet\<close>:
  \<^verbatim>\<open>df.sort_values(by=protein_col, ascending=False).groupby(diet_col).head(5)[[...]]\<close>.
\<close>

definition top5 :: "row list \<Rightarrow> row list" where
  "top5 rows = groupby_head 5 diet [] (sort_values_desc protein rows)"

definition top5_by_diet ::
  "dataframe \<Rightarrow> string \<Rightarrow> string \<Rightarrow> string \<Rightarrow> string \<Rightarrow> string \<Rightarrow> string \<Rightarrow> error + row list"
where
  "top5_by_diet df d r c p b f =
     and_then (num_col df p) (\<lambda>ps.
     and_then (key_col df d) (\<lambda>ds.
     and_then (key_col df r) (\<lambda>rs.
     and_then (key_col df c) (\<lambda>cs.
     and_then (num_col df b) (\<lambda>bs.
     and_then (num_col df f) (\<lambda>fs.
     Inr (top5 (rows_of ds rs cs ps bs fs))))))))"

section \<open>Ratio metrics\<close>

text \<open>\<^verbatim>\<open>s.replace(0, pd.NA)\<close>: every zero becomes missing.\<close>

definition replace_zero_NA :: "rat option list \<Rightarrow> rat option list" where
  "replace_zero_NA xs = map (\<lambda>x. if x = Some 0 then None else x) xs"

text \<open>
  The value of a division of two numeric entries: a number, or one of the infinities
  that floating-point division by zero gives. A missing operand, and \<open>0 / 0\<close>, give a
  missing result.
\<close>

datatype quotient = Finite rat | PosInf | NegInf

definition truediv :: "rat option \<Rightarrow> rat option \<Rightarrow> quotient option" where
  "truediv a b =
     (case (a, b) of
        (Some x, Some y) \<Rightarrow>
          if y = 0 then (if x = 0 then None else if 0 < x then Some PosInf else Some NegInf)
          else Some (Finite (x / y))
      | _ \<Rightarrow> None)"

text \<open>Element-wise \<^verbatim>\<open>a / b\<close> of two columns of one table.\<close>

definition div_series :: "rat option list \<Rightarrow> rat option list \<Rightarrow> quotient option list" where
  "div_series xs ys = map (\<lambda>(a, b). truediv a b) (zip xs ys)"

text \<open>
  \<^verbatim>\<open>df[protein_col] / df[carbs_col].replace(0, pd.NA)\<close> and
  \<^verbatim>\<open>df[carbs_col] / df[fat_col].replace(0, pd.NA)\<close>.
\<close>

definition Protein_to_Carbs_ratio :: "rat option list \<Rightarrow> rat option list \<Rightarrow> quotient option list" where
  "Protein_to_Carbs_ratio proteins carbss = div_series proteins (replace_zero_NA carbss)"

definition Carbs_to_Fat_ratio :: "rat option list \<Rightarrow> rat option list \<Rightarrow> quotient option list" where
  "Carbs_to_Fat_ratio carbss fats = div_series carbss (replace_zero_NA fats)"

section \<open>The ingestion pipeline as a whole (\<^verbatim>\<open>data_analysis.py\<close>)\<close>

text \<open>
  What the script prints, line group by line group, and how it ends. The model covers
  steps 1 to 4 and 7 of the script (load, clean, resolve, aggregate, top five, ratios);
  steps 5, 6 and 8 (highest-protein diet, common cuisines, charts) only read the tables
  computed before and are left out. \<^verbatim>\<open>top5_by_diet\<close> and the ratios are reached only
  after \<^verbatim>\<open>avg_macros\<close> has succeeded, when the three macro columns are numeric.
\<close>

datatype out =
    Banner
  | Loaded nat nat
  | MissingBefore nat
  | MissingAfter nat
  | ErrorNoColumns
  | DetectedList "string list"
  | Detected "string list"
  | AvgMacros "agg_row list"
  | Top5 "row list"
  | NewMetrics "quotient option list" "quotient option list"
  | ContainerCreated
  | ContainerAlreadyExists
  | Returned string

record analysis =
  an_avg_macros :: "agg_row list"
  an_top5 :: "row list"
  an_protein_to_carbs :: "quotient option list"
  an_carbs_to_fat :: "quotient option list"

text \<open>\<^verbatim>\<open>df.shape[0]\<close>.\<close>

definition nrows :: "dataframe \<Rightarrow> nat" where
  "nrows df = (case df of [] \<Rightarrow> 0 | (n, c) # _ \<Rightarrow> length (cells c))"

text \<open>Steps 3, 4 and 7 on the cleaned table, once the six names are resolved.\<close>

definition analyse ::
  "dataframe \<Rightarrow> string \<Rightarrow> string \<Rightarrow> string \<Rightarrow> string \<Rightarrow> string \<Rightarrow> string \<Rightarrow> error + analysis"
where
  "analyse df d r c p b f =
     and_then (avg_macros df d p b f) (\<lambda>avg.
     and_then (top5_by_diet df d r c p b f) (\<lambda>top.
     and_then (num_col df p) (\<lambda>ps.
     and_then (num_col df b) (\<lambda>bs.
     and_then (num_col df f) (\<lambda>fs.
     Inr \<lparr>an_avg_macros = avg, an_top5 = top,
          an_protein_to_carbs = Protein_to_Carbs_ratio ps bs,
          an_carbs_to_fat = Carbs_to_Fat_ratio bs fs\<rparr>)))))"

definition report :: "analysis \<Rightarrow> out list" where
  "report a = [AvgMacros (an_avg_macros a), Top5 (an_top5 a),
               NewMetrics (an_protein_to_carbs a) (an_carbs_to_fat a)]"

text \<open>
  The script from the loaded table on: the printed output and either the exception that
  ended the run or the computed tables. The test
  \<^verbatim>\<open>any(x is None for x in required)\<close> is the fall-through of the pattern match.
\<close>

definition data_analysis :: "dataframe \<Rightarrow> out list \<times> (error + analysis)" where
  "data_analysis df0 =
     (let numeric = numeric_cols df0;
          missing_before = missing_total df0 numeric;
          df = clean df0;
          missing_after = missing_total df numeric;
          log = [Banner, Loaded (nrows df0) (length (columns df0)),
                 MissingBefore missing_before, MissingAfter missing_after]
      in case required df of
           [Some d, Some r, Some c, Some p, Some b, Some f] \<Rightarrow>
             (case analyse df d r c p b f of
                Inl e \<Rightarrow> (log @ [Detected [d, r, c, p, b, f]], Inl e)
              | Inr a \<Rightarrow> (log @ [Detected [d, r, c, p, b, f]] @ report a, Inr a))
         | _ \<Rightarrow> (log @ [ErrorNoColumns, DetectedList (columns df)], Inl (SystemExit 1)))"

section \<open>The remote fetch job (\<^verbatim>\<open>lambda_function.py\<close>)\<close>

text \<open>
  The blob store is outside the program: a run is determined by what its three effects
  answer. \<open>create_container\<close> is the exception raised by
  \<^verbatim>\<open>container_client.create_container()\<close>, if any; \<open>download_blob\<close> is the outcome of
  \<^verbatim>\<open>download_blob().readall()\<close> followed by \<^verbatim>\<open>pd.read_csv\<close>, the blob's content being given as
  the table it parses to; \<open>open_results\<close> is the exception raised when the result file is
  opened and written, if any.
\<close>

record azurite =
  create_container :: "error option"
  download_blob :: "error + dataframe"
  open_results :: "error option"

text \<open>\<^verbatim>\<open>except Exception\<close> catches every exception but \<^verbatim>\<open>SystemExit\<close>.\<close>

fun is_Exception :: "error \<Rightarrow> bool" where
  "is_Exception (SystemExit n) = False"
| "is_Exception e = True"

text \<open>
  The \<^verbatim>\<open>try\<close> block around \<^verbatim>\<open>create_container()\<close>: the line printed, or the exception that
  passes through.
\<close>

definition ensure_container :: "azurite \<Rightarrow> error + out" where
  "ensure_container env =
     (case create_container env of
        None \<Rightarrow> Inr ContainerCreated
      | Some e \<Rightarrow> if is_Exception e then Inr ContainerAlreadyExists else Inl e)"

text \<open>
  The job: the lines printed and either the exception that ended it or the list of
  records written to \<^verbatim>\<open>simulated_nosql/results.json\<close> with the returned message.
\<close>

definition process_nutritional_data_from_azurite ::
  "azurite \<Rightarrow> out list \<times> (error + agg_row list \<times> string)"
where
  "process_nutritional_data_from_azurite env =
     (case ensure_container env of
        Inl e \<Rightarrow> ([], Inl e)
      | Inr line \<Rightarrow>
          ([line],
           and_then (download_blob env) (\<lambda>df.
           and_then (groupby_mean_df df ''Diet_type'' ''Protein(g)'' ''Carbs(g)'' ''Fat(g)'') (\<lambda>avg.
           case open_results env of
             Some e \<Rightarrow> Inl e
           | None \<Rightarrow> Inr (avg, ''Data processed and stored successfully.'')))))"

section \<open>Auxiliary definitions and example tables\<close>

text \<open>The effect of one round of the cleaning loop on the column it visits.\<close>

definition impute :: "column \<Rightarrow> column" where
  "impute c = (case c of
                 NumCol xs \<Rightarrow> NumCol (if isna_any xs then fillna xs (mean xs) else xs)
               | ObjCol ss \<Rightarrow> ObjCol ss)"

text \<open>
  A table with a gap in one numeric column and a numeric column that is empty in every
  row.
\<close>

definition sparse_df :: dataframe where
  "sparse_df = [(''Protein(g)'', NumCol [Some 10, None, Some 20]),
                (''Fiber(g)'', NumCol [None, None, None])]"

text \<open>A table whose header uses the short spellings.\<close>

definition short_header_df :: dataframe where
  "short_header_df = [(''Recipe'', ObjCol [Some ''tofu bowl'']),
                      (''Protein'', NumCol [Some 12])]"

text \<open>The printed lines that show an aggregate, and the results that are an exit.\<close>

fun is_aggregate :: "out \<Rightarrow> bool" where
  "is_aggregate (AvgMacros t) = True"
| "is_aggregate (Top5 t) = True"
| "is_aggregate (NewMetrics a b) = True"
| "is_aggregate line = False"

fun is_exit :: "error + 'a \<Rightarrow> bool" where
  "is_exit (Inl (SystemExit n)) = True"
| "is_exit r = False"

text \<open>
  The three-row dataset of the specification: diet types A, A, B with protein 10, 20, 5.
\<close>

definition three_rows_df :: dataframe where
  "three_rows_df =
     [(''Diet_type'', ObjCol [Some ''A'', Some ''A'', Some ''B'']),
      (''Recipe_name'', ObjCol [Some ''r1'', Some ''r2'', Some ''r3'']),
      (''Cuisine_type'', ObjCol [Some ''x'', Some ''y'', Some ''x'']),
      (''Protein(g)'', NumCol [Some 10, Some 20, Some 5]),
      (''Carbs(g)'', NumCol [Some 5, Some 0, Some 8]),
      (''Fat(g)'', NumCol [Some 1, Some 2, Some 3])]"

text \<open>
  Descending order with missing values last, as \<^verbatim>\<open>sort_values(ascending=False)\<close>
  arranges a column: \<open>not_below a b\<close> holds when a row with value \<open>a\<close> may stand
  before a row with value \<open>b\<close>.
\<close>

fun not_below :: "rat option \<Rightarrow> rat option \<Rightarrow> bool" where
  "not_below (Some x) (Some y) = (y \<le> x)"
| "not_below None (Some y) = False"
| "not_below v None = True"

text \<open>
  The arithmetic mean of a group, in the words of the specification: the records of
  diet type \<open>k\<close> that have a value in column \<open>vs\<close>, the sum of their values divided by
  their number; undefined when there is no such record.
\<close>

definition group_members :: "cell option list \<Rightarrow> rat option list \<Rightarrow> cell \<Rightarrow> nat set" where
  "group_members ks vs k =
     {i. i < length ks \<and> i < length vs \<and> ks ! i = Some k \<and> vs ! i \<noteq> None}"

definition arithmetic_mean_of_group :: "cell option list \<Rightarrow> rat option list \<Rightarrow> cell \<Rightarrow> rat option" where
  "arithmetic_mean_of_group ks vs k =
     (if group_members ks vs k = {} then None
      else Some ((\<Sum>i \<in> group_members ks vs k. the (vs ! i))
                 / of_nat (card (group_members ks vs k))))"

text \<open>A column of the table that is present and numeric.\<close>

definition is_numeric :: "dataframe \<Rightarrow> string \<Rightarrow> bool" where
  "is_numeric df n = (case map_of df n of Some (NumCol xs) \<Rightarrow> True | _ \<Rightarrow> False)"

text \<open>
  \<open>lower a b\<close>: the value \<open>a\<close> is strictly lower than \<open>b\<close>; a comparison with a missing
  value is false, as it is for \<^verbatim>\<open>NaN\<close>.
\<close>

fun lower :: "rat option \<Rightarrow> rat option \<Rightarrow> bool" where
  "lower (Some x) (Some y) = (x < y)"
| "lower a b = False"

text \<open>
  Seven records, six of one diet type, with two of them named: the fifth-best of the
  six and the one left out.
\<close>

definition seven_rows :: "row list" where
  "seven_rows =
     rows_of
       [Some (Str ''vegan''), Some (Str ''vegan''), Some (Str ''vegan''), Some (Str ''keto''),
        Some (Str ''vegan''), Some (Str ''vegan''), Some (Str ''vegan'')]
       [Some (Str ''r0''), Some (Str ''r1''), Some (Str ''r2''), Some (Str ''r3''),
        Some (Str ''r4''), Some (Str ''r5''), Some (Str ''r6'')]
       [Some (Str ''thai''), Some (Str ''thai''), Some (Str ''thai''), Some (Str ''thai''),
        Some (Str ''thai''), Some (Str ''thai''), Some (Str ''thai'')]
       [Some 3, Some 9, Some 1, Some 20, Some 7, Some 5, Some 8]
       [Some 1, Some 1, Some 1, Some 1, Some 1, Some 1, Some 1]
       [Some 2, Some 2, Some 2, Some 2, Some 2, Some 2, Some 2]"

definition row0 :: row where
  "row0 = \<lparr>idx = 0, diet = Some (Str ''vegan''), recipe = Some (Str ''r0''),
           cuisine = Some (Str ''thai''), protein = Some 3, carbs = Some 1, fat = Some 2\<rparr>"

definition row2 :: row where
  "row2 = \<lparr>idx = 2, diet = Some (Str ''vegan''), recipe = Some (Str ''r2''),
           cuisine = Some (Str ''thai''), protein = Some 1, carbs = Some 1, fat = Some 2\<rparr>"

text \<open>
  A table in which the diet type with the higher mean protein comes later in key order.
\<close>

definition keto_dash_df :: dataframe where
  "keto_dash_df =
     [(''Diet_type'', ObjCol [Some ''keto'', Some ''dash'', Some ''keto'']),
      (''Recipe_name'', ObjCol [Some ''r1'', Some ''r2'', Some ''r3'']),
      (''Cuisine_type'', ObjCol [Some ''x'', Some ''y'', Some ''x'']),
      (''Protein(g)'', NumCol [Some 30, Some 12, Some 40]),
      (''Carbs(g)'', NumCol [Some 5, Some 60, Some 7]),
      (''Fat(g)'', NumCol [Some 50, Some 10, Some 40])]"

text \<open>
  A run of the remote job in which the container is already there, the blob holds the
  given table and the result file can be written.
\<close>

definition container_exists :: "dataframe \<Rightarrow> azurite" where
  "container_exists df =
     \<lparr>create_container = Some ResourceExistsError, download_blob = Inr df, open_results = None\<rparr>"

text \<open>
  The per-diet-type means of either flow: the aggregate table of the pipeline, and the
  list of records the remote job writes.
\<close>

definition pipeline_means :: "dataframe \<Rightarrow> error + agg_row list" where
  "pipeline_means df = and_then (snd (data_analysis df)) (\<lambda>a. Inr (an_avg_macros a))"

definition job_means :: "azurite \<Rightarrow> error + agg_row list" where
  "job_means env =
     and_then (snd (process_nutritional_data_from_azurite env)) (\<lambda>(json, msg). Inr json)"

text \<open>
  A table with a missing protein value, and a table whose header uses the later
  spellings of every field.
\<close>

definition gap_df :: dataframe where
  "gap_df =
     [(''Diet_type'', ObjCol [Some ''A'', Some ''A'', Some ''B'']),
      (''Recipe_name'', ObjCol [Some ''r1'', Some ''r2'', Some ''r3'']),
      (''Cuisine_type'', ObjCol [Some ''x'', Some ''y'', Some ''x'']),
      (''Protein(g)'', NumCol [Some 10, None, Some 40]),
      (''Carbs(g)'', NumCol [Some 4, Some 6, Some 8]),
      (''Fat(g)'', NumCol [Some 1, Some 3, Some 5])]"

definition plain_header_df :: dataframe where
  "plain_header_df =
     [(''diet'', ObjCol [Some ''A'', Some ''B'']),
      (''Recipe'', ObjCol [Some ''r1'', Some ''r2'']),
      (''Cuisine'', ObjCol [Some ''x'', Some ''y'']),
      (''Protein'', NumCol [Some 10, Some 40]),
      (''Carbs'', NumCol [Some 4, Some 6]),
      (''Fat'', NumCol [Some 1, Some 3])]"

text \<open>A column that, if numeric, has no missing value.\<close>

definition no_gaps :: "dataframe \<Rightarrow> string \<Rightarrow> bool" where
  "no_gaps df n = (case map_of df n of Some (NumCol xs) \<Rightarrow> \<not> isna_any xs | _ \<Rightarrow> True)"

section \<open>Cleaning: properties\<close>

lemma present_Nil [simp]: "present [] = []"
  by (simp add: present_def)

lemma present_Cons_None [simp]: "present (None # xs) = present xs"
  by (simp add: present_def)

lemma present_Cons_Some [simp]: "present (Some v # xs) = v # present xs"
  by (simp add: present_def)

lemma isna_sum_Nil [simp]: "isna_sum [] = 0"
  by (simp add: isna_sum_def)

lemma isna_sum_Cons_None [simp]: "isna_sum (None # xs) = Suc (isna_sum xs)"
  by (simp add: isna_sum_def)

lemma isna_sum_Cons_Some [simp]: "isna_sum (Some v # xs) = isna_sum xs"
  by (simp add: isna_sum_def)

lemma isna_any_iff: "isna_any xs \<longleftrightarrow> None \<in> set xs"
  by (auto simp: isna_any_def list_ex_iff)

lemma isna_sum_zero_iff: "isna_sum xs = 0 \<longleftrightarrow> None \<notin> set xs"
proof (induction xs)
  case Nil
  show ?case by simp
next
  case (Cons x xs)
  then show ?case by (cases x) auto
qed

lemma present_empty_iff: "present xs = [] \<longleftrightarrow> (\<forall>x \<in> set xs. x = None)"
proof (induction xs)
  case Nil
  show ?case by simp
next
  case (Cons x xs)
  then show ?case by (cases x) auto
qed

lemma length_present: "length (present xs) + isna_sum xs = length xs"
proof (induction xs)
  case Nil
  show ?case by simp
next
  case (Cons x xs)
  then show ?case by (cases x) simp_all
qed

lemma present_fillna_Some:
  "sum_list (present (fillna xs (Some v))) = sum_list (present xs) + of_nat (isna_sum xs) * v"
proof (induction xs)
  case Nil
  show ?case by (simp add: fillna_def)
next
  case (Cons x xs)
  then show ?case by (cases x) (simp_all add: fillna_def algebra_simps)
qed

lemma length_present_fillna_Some: "length (present (fillna xs (Some v))) = length xs"
proof (induction xs)
  case Nil
  show ?case by (simp add: fillna_def)
next
  case (Cons x xs)
  then show ?case by (cases x) (simp_all add: fillna_def)
qed

lemma fillna_Some_no_missing: "None \<notin> set (fillna xs (Some v))"
  by (auto simp: fillna_def split: option.splits)

lemma fillna_None [simp]: "fillna xs None = xs"
  by (induction xs) (auto simp: fillna_def split: option.splits)

lemma impute_idem: "impute (impute c) = impute c"
proof (cases c)
  case (NumCol xs)
  show ?thesis
  proof (cases "mean xs")
    case None
    then show ?thesis by (simp add: impute_def NumCol)
  next
    case (Some v)
    then show ?thesis
      using fillna_Some_no_missing [of xs v]
      by (simp add: impute_def NumCol isna_any_iff)
  qed
next
  case (ObjCol ss)
  then show ?thesis by (simp add: impute_def)
qed

lemma map_of_clean_step:
  "map_of (clean_step col df) = (\<lambda>n. if n = col then map_option impute (map_of df col) else map_of df n)"
  by (auto simp: clean_step_def impute_def update_conv' fun_eq_iff split: option.splits column.splits)

lemma map_of_fold_clean_step:
  "map_of (fold clean_step ns df) n =
     (if n \<in> set ns then map_option impute (map_of df n) else map_of df n)"
proof (induction ns arbitrary: df)
  case Nil
  show ?case by simp
next
  case (Cons a ns)
  show ?case
    by (simp add: Cons.IH map_of_clean_step option.map_comp comp_def impute_idem)
qed

lemma columns_clean_step: "columns (clean_step col df) = columns df"
  by (auto simp: clean_step_def columns_def update_keys split: option.splits column.splits
      dest: map_of_SomeD intro: rev_image_eqI)

lemma columns_fold_clean_step: "columns (fold clean_step ns df) = columns df"
  by (induction ns arbitrary: df) (simp_all add: columns_clean_step)

lemma columns_clean: "columns (clean df) = columns df"
  by (simp add: clean_def columns_fold_clean_step)

lemma numeric_cols_mem:
  assumes "map_of df n = Some (NumCol xs)"
  shows "n \<in> set (numeric_cols df)"
proof -
  have "(n, NumCol xs) \<in> set df"
    using assms by (rule map_of_SomeD)
  then show ?thesis
    by (force simp: numeric_cols_def)
qed

lemma map_of_clean_NumCol:
  assumes "map_of df n = Some (NumCol xs)"
  shows "map_of (clean df) n = Some (NumCol (if isna_any xs then fillna xs (mean xs) else xs))"
  using assms numeric_cols_mem [OF assms]
  by (simp add: clean_def map_of_fold_clean_step impute_def)

lemma map_of_clean_ObjCol:
  assumes "map_of df n = Some (ObjCol ss)"
  shows "map_of (clean df) n = Some (ObjCol ss)"
  using assms by (simp add: clean_def map_of_fold_clean_step impute_def)

lemma map_of_clean_None:
  assumes "map_of df n = None"
  shows "map_of (clean df) n = None"
  using assms by (simp add: clean_def map_of_fold_clean_step)

lemma length_fill_gaps: "length (fill_gaps mu xs) = length xs"
  by (simp add: fill_gaps_def fillna_def)

lemma fill_gaps_nth:
  assumes "i < length xs"
  shows "fill_gaps mu xs ! i = (case xs ! i of None \<Rightarrow> mu xs | Some v \<Rightarrow> Some v)"
proof (cases "isna_any xs")
  case True
  with assms show ?thesis
    by (simp add: fill_gaps_def fillna_def)
next
  case False
  then have "None \<notin> set xs"
    by (simp add: isna_any_iff)
  moreover have "xs ! i \<in> set xs"
    using assms by (rule nth_mem)
  ultimately have "xs ! i \<noteq> None"
    by metis
  with False show ?thesis
    by (auto simp: fill_gaps_def)
qed

lemma fill_gaps_defined:
  assumes "mu xs \<noteq> None"
  shows "isna_sum (fill_gaps mu xs) = 0"
proof (cases "isna_any xs")
  case True
  from assms obtain m where "mu xs = Some m"
    by blast
  with True show ?thesis
    using fillna_Some_no_missing [of xs m]
    by (simp add: fill_gaps_def isna_sum_zero_iff)
next
  case False
  then show ?thesis
    by (simp add: fill_gaps_def isna_any_iff isna_sum_zero_iff)
qed

lemma fill_gaps_undefined:
  assumes "mu xs = None"
  shows "fill_gaps mu xs = xs"
  using assms by (simp add: fill_gaps_def)

lemma mean_fillna_Some:
  assumes "mean xs = Some a"
  shows "mean (fillna xs (Some m)) =
           Some (a + of_nat (isna_sum xs) / of_nat (length xs) * (m - a))"
proof -
  define k where "k = length (present xs)"
  define g where "g = isna_sum xs"
  define S where "S = sum_list (present xs)"
  have ne: "present xs \<noteq> []"
    using assms by (auto simp: mean_def split: if_splits)
  then have kpos: "0 < k"
    by (simp add: k_def)
  have a: "a = S / of_nat k"
    using assms ne by (simp add: mean_def S_def k_def)
  have len: "length xs = k + g"
    using length_present [of xs] by (simp add: k_def g_def)
  have ne': "present (fillna xs (Some m)) \<noteq> []"
    using length_present_fillna_Some [of xs m] len kpos by auto
  define K :: rat where "K = of_nat k"
  define G :: rat where "G = of_nat g"
  have K: "K \<noteq> 0" and KG: "K + G \<noteq> 0"
    using kpos by (simp_all add: K_def G_def flip: of_nat_add)
  have "S / K * (K + G) + G * (m - S / K) = S + G * m"
    using K by (simp add: field_simps)
  then have "(S + G * m) / (K + G) = (S / K * (K + G) + G * (m - S / K)) / (K + G)"
    by simp
  also have "\<dots> = S / K + G / (K + G) * (m - S / K)"
    using KG by (simp add: add_divide_distrib)
  finally have "(S + of_nat g * m) / of_nat (k + g) =
        S / of_nat k + of_nat g / of_nat (k + g) * (m - S / (of_nat k :: rat))"
    by (simp add: K_def G_def)
  then show ?thesis
    using ne'
    by (simp add: mean_def present_fillna_Some length_present_fillna_Some len a
        S_def [symmetric] g_def [symmetric])
qed

lemma mean_fill_gaps:
  assumes a: "mean xs = Some a" and m: "nu xs = Some m"
  shows "mean (fill_gaps nu xs) =
           Some (a + of_nat (isna_sum xs) / of_nat (length xs) * (m - a))"
proof (cases "isna_any xs")
  case True
  then show ?thesis
    by (simp add: fill_gaps_def m mean_fillna_Some [OF a])
next
  case False
  then have "isna_sum xs = 0"
    by (simp add: isna_any_iff isna_sum_zero_iff)
  with False a show ?thesis
    by (simp add: fill_gaps_def)
qed

lemma mean_fill_gaps_mean:
  assumes "mean xs \<noteq> None"
  shows "mean (fill_gaps mean xs) = mean xs"
proof -
  from assms obtain a where a: "mean xs = Some a"
    by blast
  show ?thesis
    using mean_fill_gaps [of xs a mean a] by (simp add: a)
qed

lemma map_of_clean_fill_gaps:
  assumes "map_of df n = Some (NumCol xs)"
  shows "map_of (clean df) n = Some (NumCol (fill_gaps mean xs))"
  using map_of_clean_NumCol [OF assms] by (simp add: fill_gaps_def)

text \<open>
  C1, as amended. For every numeric column of the loaded table, the cleaning step
  leaves each present value as it is and puts in each gap the value that \<^verbatim>\<open>mean()\<close>
  gave for the column before cleaning. This holds for any function \<open>mu\<close> in the place
  of \<^verbatim>\<open>mean()\<close> and any type of values, so it does not depend on how the mean is
  rounded or on the infinities. Hence the column has no missing value afterwards when
  that mean is defined, and it is left as it is when that mean is \<^verbatim>\<open>NaN\<close>.

  On the arithmetic mean, in exact arithmetic only: when the column has the exact mean
  \<open>a\<close> and its gaps are filled with the value \<open>m\<close>, the cleaned column has the exact mean
  \<open>a + g / n * (m - a)\<close>, for \<open>g\<close> gaps among \<open>n\<close> rows. The mean is therefore unchanged
  when the value filled in is the exact mean, and otherwise moves from \<open>a\<close> towards \<open>m\<close>
  by the fraction \<open>g / n\<close> of their difference: with the rounded mean of \<^verbatim>\<open>float64\<close> the
  mean is kept only up to rounding.
\<close>

theorem clean_fills_gaps_with_mean:
  "(map_of df n = Some (NumCol xs) \<longrightarrow>
      map_of (clean df) n = Some (NumCol (fill_gaps mean xs))) \<and>
   length (fill_gaps mu ys) = length ys \<and>
   (i < length ys \<longrightarrow>
      fill_gaps mu ys ! i = (case ys ! i of None \<Rightarrow> mu ys | Some v \<Rightarrow> Some v)) \<and>
   (mu ys \<noteq> None \<longrightarrow> isna_sum (fill_gaps mu ys) = 0) \<and>
   (mu ys = None \<longrightarrow> fill_gaps mu ys = ys) \<and>
   (mean zs = Some a \<and> nu zs = Some m \<longrightarrow>
      mean (fill_gaps nu zs) =
        Some (a + of_nat (isna_sum zs) / of_nat (length zs) * (m - a))) \<and>
   (mean zs \<noteq> None \<longrightarrow> mean (fill_gaps mean zs) = mean zs)"
  using map_of_clean_fill_gaps [of df n xs] length_fill_gaps [of mu ys]
    fill_gaps_nth [of i ys mu] fill_gaps_defined [of mu ys] fill_gaps_undefined [of mu ys]
    mean_fill_gaps [of zs a nu m] mean_fill_gaps_mean [of zs]
  by blast

theorem clean_fills_gaps_with_mean_witness:
  "map_of sparse_df ''Protein(g)'' = Some (NumCol [Some 10, None, Some 20]) \<and>
   map_of (clean sparse_df) ''Protein(g)'' = Some (NumCol [Some 10, Some 15, Some 20]) \<and>
   mean [Some 10, None, Some 20] = Some 15 \<and>
   fill_gaps mean [Some 10, None, Some 20] ! 1 = Some 15 \<and>
   isna_sum (fill_gaps mean [Some 10, None, Some 20]) = 0 \<and>
   mean (fill_gaps mean [Some 10, None, Some 20]) = Some 15 \<and>
   mean [None, None, None] = None \<and>
   fill_gaps mean [None, None, None] = [None, None, None] \<and>
   mean (fill_gaps (\<lambda>c. Some 16) [Some 10, None, Some 20]) = Some (46 / 3)"
proof -
  let ?xs = "[Some 10, None, Some (20::rat)]"
  have h: "map_of sparse_df ''Protein(g)'' = Some (NumCol ?xs)"
    by (simp add: sparse_df_def)
  have m: "mean ?xs = Some 15"
    by (simp add: mean_def)
  have e: "mean [None, None, None] = None"
    by (simp add: mean_def)
  note full = clean_fills_gaps_with_mean
    [where df = sparse_df and n = "''Protein(g)''" and xs = ?xs and mu = mean and ys = ?xs
       and i = 1 and zs = ?xs and a = 15 and nu = "\<lambda>c. Some 16" and m = 16]
  note empty = clean_fills_gaps_with_mean
    [where mu = mean and ys = "[None, None, None]"]
  have nth: "fill_gaps mean ?xs ! 1 = Some 15"
    using full m by simp
  have zero: "isna_sum (fill_gaps mean ?xs) = 0"
    using full m by simp
  have all: "fill_gaps mean ?xs = [Some 10, Some 15, Some 20]"
    using full m by (simp add: fill_gaps_def isna_any_def fillna_def)
  have cleaned: "map_of (clean sparse_df) ''Protein(g)'' = Some (NumCol [Some 10, Some 15, Some 20])"
    using full h all by simp
  have kept: "mean (fill_gaps mean ?xs) = Some 15"
    using full m by simp
  have same: "fill_gaps mean [None, None, None] = [None, None, None]"
    using empty e by blast
  have moved: "mean (fill_gaps (\<lambda>c. Some 16) ?xs) = Some (46 / 3)"
    using full m by simp
  show ?thesis
    using h cleaned m nth zero kept e same moved by blast
qed

text \<open>
  C1 as stated fails: in \<open>sparse_df\<close> the column \<^verbatim>\<open>Fiber(g)\<close> is numeric and has no
  present value, its mean is \<^verbatim>\<open>NaN\<close>, and the count of missing numeric values after
  cleaning (\<^verbatim>\<open>missing_after\<close> of the script) is 3, not 0.
\<close>

theorem all_missing_column_counterexample:
  "missing_total (clean sparse_df) (numeric_cols sparse_df) = 3"
  by (simp add: sparse_df_def clean_def numeric_cols_def clean_step_def isna_any_def
      mean_def fillna_def missing_total_def)

section \<open>Column resolution: properties\<close>

lemma pick_col_SomeD:
  "pick_col df names = Some n \<Longrightarrow> n \<in> set names \<and> n \<in> set (columns df)"
  by (induction names) (auto split: if_splits)

lemma pick_col_None_iff:
  "pick_col df names = None \<longleftrightarrow> set names \<inter> set (columns df) = {}"
  by (induction names) auto

lemma pick_col_Some_iff:
  "pick_col df names = Some n \<longleftrightarrow>
     (\<exists>pre post. names = pre @ n # post \<and> n \<in> set (columns df) \<and>
                 set pre \<inter> set (columns df) = {})"
proof (induction names)
  case Nil
  show ?case by simp
next
  case (Cons a names)
  show ?case
  proof (cases "a \<in> set (columns df)")
    case True
    have "(\<exists>pre post. a # names = pre @ n # post \<and> n \<in> set (columns df) \<and>
             set pre \<inter> set (columns df) = {}) \<longleftrightarrow> a = n"
    proof
      assume "\<exists>pre post. a # names = pre @ n # post \<and> n \<in> set (columns df) \<and>
                set pre \<inter> set (columns df) = {}"
      then obtain pre post where eq: "a # names = pre @ n # post"
        and dis: "set pre \<inter> set (columns df) = {}"
        by blast
      show "a = n"
      proof (cases pre)
        case Nil
        with eq show ?thesis by simp
      next
        case (Cons b pre')
        with eq have "b = a" by simp
        with Cons dis True show ?thesis by auto
      qed
    next
      assume "a = n"
      with True have "a # names = [] @ n # names \<and> n \<in> set (columns df) \<and>
                      set [] \<inter> set (columns df) = {}"
        by simp
      then show "\<exists>pre post. a # names = pre @ n # post \<and> n \<in> set (columns df) \<and>
                  set pre \<inter> set (columns df) = {}"
        by blast
    qed
    with True show ?thesis by auto
  next
    case False
    have "(\<exists>pre post. a # names = pre @ n # post \<and> n \<in> set (columns df) \<and>
             set pre \<inter> set (columns df) = {}) \<longleftrightarrow>
          (\<exists>pre post. names = pre @ n # post \<and> n \<in> set (columns df) \<and>
             set pre \<inter> set (columns df) = {})"
      (is "?L \<longleftrightarrow> ?R")
    proof
      assume ?L
      then obtain pre post where eq: "a # names = pre @ n # post"
        and n: "n \<in> set (columns df)"
        and dis: "set pre \<inter> set (columns df) = {}"
        by blast
      show ?R
      proof (cases pre)
        case Nil
        with eq n False show ?thesis by simp
      next
        case (Cons b pre')
        with eq dis n have "names = pre' @ n # post \<and> n \<in> set (columns df) \<and>
            set pre' \<inter> set (columns df) = {}"
          by auto
        then show ?thesis by blast
      qed
    next
      assume ?R
      then obtain pre post where "names = pre @ n # post" "n \<in> set (columns df)"
        "set pre \<inter> set (columns df) = {}"
        by blast
      with False have "a # names = (a # pre) @ n # post \<and> n \<in> set (columns df) \<and>
          set (a # pre) \<inter> set (columns df) = {}"
        by simp
      then show ?L by blast
    qed
    with False Cons.IH show ?thesis by simp
  qed
qed

lemma pick_col_single:
  assumes one: "set names \<inter> set (columns df) = {n}"
  shows "pick_col df names = Some n"
proof (cases "pick_col df names")
  case None
  with one show ?thesis by (simp add: pick_col_None_iff)
next
  case (Some m)
  then have "m \<in> set names \<inter> set (columns df)"
    by (auto dest: pick_col_SomeD)
  with one Some show ?thesis by simp
qed

text \<open>
  C6. \<^verbatim>\<open>pick_col\<close> returns the first name of the candidate list that is a column of the
  table: the result is \<open>n\<close> exactly when the list is \<open>pre @ n # post\<close> with \<open>n\<close> a column
  and no name of \<open>pre\<close> a column, and it is \<^verbatim>\<open>None\<close> exactly when no candidate is a
  column. Hence, when exactly one candidate \<open>n\<close> is a column of the table, every list
  \<open>names'\<close> with the same candidates, in whatever order, resolves to \<open>n\<close>.
\<close>

theorem pick_col_first_present:
  "(pick_col df names = Some n \<longleftrightarrow>
      (\<exists>pre post. names = pre @ n # post \<and> n \<in> set (columns df) \<and>
                  set pre \<inter> set (columns df) = {})) \<and>
   (pick_col df names = None \<longleftrightarrow> set names \<inter> set (columns df) = {}) \<and>
   (set names \<inter> set (columns df) = {n} \<and> set names' = set names \<longrightarrow>
      pick_col df names' = Some n \<and> pick_col df names = Some n)"
  using pick_col_Some_iff [of df names n] pick_col_None_iff [of df names]
    pick_col_single [of names df n] pick_col_single [of names' df n]
  by simp

theorem pick_col_first_present_witness:
  "set protein_names \<inter> set (columns short_header_df) = {''Protein''} \<and>
   set (rev protein_names) = set protein_names \<and>
   pick_col short_header_df (rev protein_names) = Some ''Protein'' \<and>
   pick_col short_header_df protein_names = Some ''Protein''"
proof -
  have one: "set protein_names \<inter> set (columns short_header_df) = {''Protein''}"
    by (auto simp: protein_names_def short_header_df_def columns_def)
  have same: "set (rev protein_names) = set protein_names"
    by simp
  show ?thesis
    using one same
      pick_col_first_present [of short_header_df protein_names "''Protein''" "rev protein_names"]
    by blast
qed

section \<open>The abort on unresolved columns\<close>

lemma required_clean: "required (clean df) = required df"
proof -
  have "pick_col (clean df) names = pick_col df names" for names
    by (induction names) (simp_all add: columns_clean)
  then show ?thesis by (simp add: required_def)
qed

lemma six_case:
  "(case [a, b, c, d, e, f] of
      [Some a', Some b', Some c', Some d', Some e', Some f'] \<Rightarrow> g a' b' c' d' e' f'
    | _ \<Rightarrow> h) =
   (if None \<in> set [a, b, c, d, e, f] then h else g (the a) (the b) (the c) (the d) (the e) (the f))"
  by (cases a; cases b; cases c; cases d; cases e; cases f) simp_all

lemma data_analysis_abort:
  assumes "None \<in> set (required df)"
  shows "data_analysis df =
     ([Banner, Loaded (nrows df) (length (columns df)),
       MissingBefore (missing_total df (numeric_cols df)),
       MissingAfter (missing_total (clean df) (numeric_cols df)),
       ErrorNoColumns, DetectedList (columns df)], Inl (SystemExit 1))"
proof -
  obtain a b c d e f where r: "required (clean df) = [a, b, c, d, e, f]"
    by (simp add: required_def)
  have "None \<in> set [a, b, c, d, e, f]"
    using assms r by (simp add: required_clean)
  then show ?thesis
    unfolding data_analysis_def Let_def r six_case
    by (simp add: columns_clean)
qed

lemma data_analysis_go:
  assumes "None \<notin> set (required df)"
  shows "\<exists>d r c p b f. required df = [Some d, Some r, Some c, Some p, Some b, Some f] \<and>
     data_analysis df =
     (case analyse (clean df) d r c p b f of
        Inl e \<Rightarrow> ([Banner, Loaded (nrows df) (length (columns df)),
                   MissingBefore (missing_total df (numeric_cols df)),
                   MissingAfter (missing_total (clean df) (numeric_cols df)),
                   Detected [d, r, c, p, b, f]], Inl e)
      | Inr a \<Rightarrow> ([Banner, Loaded (nrows df) (length (columns df)),
                   MissingBefore (missing_total df (numeric_cols df)),
                   MissingAfter (missing_total (clean df) (numeric_cols df)),
                   Detected [d, r, c, p, b, f]] @ report a, Inr a))"
proof -
  obtain a b c d e f where r: "required (clean df) = [a, b, c, d, e, f]"
    by (simp add: required_def)
  have nn: "None \<notin> set [a, b, c, d, e, f]"
    using assms r by (simp add: required_clean)
  then obtain a' b' c' d' e' f' where
    s: "a = Some a'" "b = Some b'" "c = Some c'" "d = Some d'" "e = Some e'" "f = Some f'"
    by (cases a; cases b; cases c; cases d; cases e; cases f) simp_all
  have r': "required df = [Some a', Some b', Some c', Some d', Some e', Some f']"
    using r s by (simp add: required_clean)
  have "data_analysis df =
     (case analyse (clean df) a' b' c' d' e' f' of
        Inl e \<Rightarrow> ([Banner, Loaded (nrows df) (length (columns df)),
                   MissingBefore (missing_total df (numeric_cols df)),
                   MissingAfter (missing_total (clean df) (numeric_cols df)),
                   Detected [a', b', c', d', e', f']], Inl e)
      | Inr a \<Rightarrow> ([Banner, Loaded (nrows df) (length (columns df)),
                   MissingBefore (missing_total df (numeric_cols df)),
                   MissingAfter (missing_total (clean df) (numeric_cols df)),
                   Detected [a', b', c', d', e', f']] @ report a, Inr a))"
    unfolding data_analysis_def Let_def r s
    by (simp split: sum.splits)
  with r' show ?thesis by blast
qed

lemma key_col_not_exit: "\<not> is_exit (key_col df n)"
  by (simp add: key_col_def split: option.splits)

lemma num_col_not_exit: "\<not> is_exit (num_col df n)"
  by (simp add: num_col_def split: option.splits column.splits)

lemma and_then_not_exit:
  assumes "\<not> is_exit m" and "\<And>x. \<not> is_exit (f x)"
  shows "\<not> is_exit (and_then m f)"
proof (cases m)
  case (Inl e)
  with assms(1) show ?thesis by (cases e) simp_all
next
  case (Inr x)
  with assms(2) show ?thesis by simp
qed

lemma Inr_not_exit: "\<not> is_exit (Inr x)"
  by simp

lemma analyse_not_exit: "\<not> is_exit (analyse df d r c p b f)"
  unfolding analyse_def avg_macros_def top5_by_diet_def groupby_mean_df_def
  by (intro and_then_not_exit key_col_not_exit num_col_not_exit Inr_not_exit)

text \<open>
  C7. When at least one of the six required fields resolves to no column, the run ends
  with \<^verbatim>\<open>SystemExit(1)\<close>, a non-zero exit status; the last lines printed are the error
  message and the full list of the table's columns; and no aggregate is printed or
  computed. When all six fields resolve, the run does not end in \<^verbatim>\<open>SystemExit\<close> and
  the error message is not printed.
\<close>

theorem unresolved_column_aborts:
  "(None \<in> set (required df) \<longrightarrow>
      snd (data_analysis df) = Inl (SystemExit 1) \<and>
      (\<exists>printed. fst (data_analysis df) = printed @ [ErrorNoColumns, DetectedList (columns df)]) \<and>
      \<not> list_ex is_aggregate (fst (data_analysis df))) \<and>
   (None \<notin> set (required df) \<longrightarrow>
      \<not> is_exit (snd (data_analysis df)) \<and>
      ErrorNoColumns \<notin> set (fst (data_analysis df)))"
proof (intro conjI impI)
  assume a: "None \<in> set (required df)"
  show "snd (data_analysis df) = Inl (SystemExit 1)"
    by (simp add: data_analysis_abort [OF a])
  show "\<exists>printed. fst (data_analysis df) = printed @ [ErrorNoColumns, DetectedList (columns df)]"
    by (simp add: data_analysis_abort [OF a])
  show "\<not> list_ex is_aggregate (fst (data_analysis df))"
    by (simp add: data_analysis_abort [OF a])
next
  assume a: "None \<notin> set (required df)"
  from data_analysis_go [OF a] obtain d r c p b f where
    eq: "data_analysis df =
     (case analyse (clean df) d r c p b f of
        Inl e \<Rightarrow> ([Banner, Loaded (nrows df) (length (columns df)),
                   MissingBefore (missing_total df (numeric_cols df)),
                   MissingAfter (missing_total (clean df) (numeric_cols df)),
                   Detected [d, r, c, p, b, f]], Inl e)
      | Inr a \<Rightarrow> ([Banner, Loaded (nrows df) (length (columns df)),
                   MissingBefore (missing_total df (numeric_cols df)),
                   MissingAfter (missing_total (clean df) (numeric_cols df)),
                   Detected [d, r, c, p, b, f]] @ report a, Inr a))"
    by blast
  show "\<not> is_exit (snd (data_analysis df))"
    using analyse_not_exit [of "clean df" d r c p b f]
    by (cases "analyse (clean df) d r c p b f") (simp_all add: eq)
  show "ErrorNoColumns \<notin> set (fst (data_analysis df))"
    by (cases "analyse (clean df) d r c p b f") (simp_all add: eq report_def)
qed


theorem unresolved_column_aborts_witness:
  "None \<in> set (required short_header_df) \<and>
   snd (data_analysis short_header_df) = Inl (SystemExit 1) \<and>
   None \<notin> set (required three_rows_df) \<and>
   \<not> is_exit (snd (data_analysis three_rows_df))"
proof -
  have miss: "None \<in> set (required short_header_df)"
    by (simp add: required_def short_header_df_def columns_def diet_names_def)
  have full: "None \<notin> set (required three_rows_df)"
    by (simp add: required_def three_rows_df_def columns_def diet_names_def recipe_names_def
        cuisine_names_def protein_names_def carbs_names_def fat_names_def)
  show ?thesis
    using miss full unresolved_column_aborts [of short_header_df]
      unresolved_column_aborts [of three_rows_df]
    by blast
qed

section \<open>Ratio metrics: properties\<close>

lemma div_series_nth:
  "i < length xs \<Longrightarrow> i < length ys \<Longrightarrow> div_series xs ys ! i = truediv (xs ! i) (ys ! i)"
  by (simp add: div_series_def)

lemma length_div_series: "length (div_series xs ys) = min (length xs) (length ys)"
  by (simp add: div_series_def)

lemma replace_zero_NA_nth:
  "i < length xs \<Longrightarrow> replace_zero_NA xs ! i = (if xs ! i = Some 0 then None else xs ! i)"
  by (simp add: replace_zero_NA_def)

lemma length_replace_zero_NA: "length (replace_zero_NA xs) = length xs"
  by (simp add: replace_zero_NA_def)

lemma truediv_None_right: "truediv a None = None"
  by (simp add: truediv_def split: option.splits)

lemma truediv_finite:
  "b \<noteq> Some 0 \<Longrightarrow> truediv a b \<noteq> Some PosInf \<and> truediv a b \<noteq> Some NegInf"
  by (auto simp: truediv_def split: option.splits)

lemma div_series_safe_finite:
  "Some PosInf \<notin> set (div_series xs (replace_zero_NA ys)) \<and>
   Some NegInf \<notin> set (div_series xs (replace_zero_NA ys))"
proof -
  have nz: "b \<noteq> Some 0" if "(a, b) \<in> set (zip xs (replace_zero_NA ys))" for a b
  proof -
    from that have "b \<in> set (replace_zero_NA ys)"
      by (rule set_zip_rightD)
    then show ?thesis
      by (auto simp: replace_zero_NA_def split: if_splits)
  qed
  have "q \<noteq> Some PosInf \<and> q \<noteq> Some NegInf"
    if "q \<in> set (div_series xs (replace_zero_NA ys))" for q
  proof -
    from that obtain a b where ab: "(a, b) \<in> set (zip xs (replace_zero_NA ys))"
      and q: "q = truediv a b"
      unfolding div_series_def by auto
    from nz [OF ab] show ?thesis
      unfolding q by (rule truediv_finite)
  qed
  then show ?thesis by blast
qed

text \<open>
  C4. Every record gets a value for each ratio (the ratio columns have the table's
  length, nothing is raised). In a record whose carbs value is 0 the protein-to-carbs
  ratio is missing, and in a record whose fat value is 0 the carbs-to-fat ratio is
  missing; no ratio of either column is an infinity. In a record with protein 10 and
  carbs 5 the protein-to-carbs ratio is 2.
\<close>

theorem zero_denominator_ratio_undefined:
  "length (Protein_to_Carbs_ratio ps bs) = min (length ps) (length bs) \<and>
   length (Carbs_to_Fat_ratio bs fs) = min (length bs) (length fs) \<and>
   (i < length ps \<and> i < length bs \<and> bs ! i = Some 0 \<longrightarrow>
      Protein_to_Carbs_ratio ps bs ! i = None) \<and>
   (i < length bs \<and> i < length fs \<and> fs ! i = Some 0 \<longrightarrow>
      Carbs_to_Fat_ratio bs fs ! i = None) \<and>
   Some PosInf \<notin> set (Protein_to_Carbs_ratio ps bs) \<and>
   Some NegInf \<notin> set (Protein_to_Carbs_ratio ps bs) \<and>
   Some PosInf \<notin> set (Carbs_to_Fat_ratio bs fs) \<and>
   Some NegInf \<notin> set (Carbs_to_Fat_ratio bs fs) \<and>
   (i < length ps \<and> i < length bs \<and> ps ! i = Some 10 \<and> bs ! i = Some 5 \<longrightarrow>
      Protein_to_Carbs_ratio ps bs ! i = Some (Finite 2))"
proof (intro conjI impI)
  show "length (Protein_to_Carbs_ratio ps bs) = min (length ps) (length bs)"
    by (simp add: Protein_to_Carbs_ratio_def length_div_series length_replace_zero_NA)
  show "length (Carbs_to_Fat_ratio bs fs) = min (length bs) (length fs)"
    by (simp add: Carbs_to_Fat_ratio_def length_div_series length_replace_zero_NA)
  show "Some PosInf \<notin> set (Protein_to_Carbs_ratio ps bs)"
    using div_series_safe_finite [of ps bs] by (simp add: Protein_to_Carbs_ratio_def)
  show "Some NegInf \<notin> set (Protein_to_Carbs_ratio ps bs)"
    using div_series_safe_finite [of ps bs] by (simp add: Protein_to_Carbs_ratio_def)
  show "Some PosInf \<notin> set (Carbs_to_Fat_ratio bs fs)"
    using div_series_safe_finite [of bs fs] by (simp add: Carbs_to_Fat_ratio_def)
  show "Some NegInf \<notin> set (Carbs_to_Fat_ratio bs fs)"
    using div_series_safe_finite [of bs fs] by (simp add: Carbs_to_Fat_ratio_def)
next
  assume "i < length ps \<and> i < length bs \<and> bs ! i = Some 0"
  then show "Protein_to_Carbs_ratio ps bs ! i = None"
    by (simp add: Protein_to_Carbs_ratio_def div_series_nth length_replace_zero_NA
        replace_zero_NA_nth truediv_None_right)
next
  assume "i < length bs \<and> i < length fs \<and> fs ! i = Some 0"
  then show "Carbs_to_Fat_ratio bs fs ! i = None"
    by (simp add: Carbs_to_Fat_ratio_def div_series_nth length_replace_zero_NA
        replace_zero_NA_nth truediv_None_right)
next
  assume "i < length ps \<and> i < length bs \<and> ps ! i = Some 10 \<and> bs ! i = Some 5"
  then show "Protein_to_Carbs_ratio ps bs ! i = Some (Finite 2)"
    by (simp add: Protein_to_Carbs_ratio_def div_series_nth length_replace_zero_NA
        replace_zero_NA_nth truediv_def)
qed

theorem zero_denominator_ratio_undefined_witness:
  "Protein_to_Carbs_ratio [Some 10, Some 20, Some 5] [Some 5, Some 0, Some 8] ! 1 = None \<and>
   Carbs_to_Fat_ratio [Some 5, Some 0, Some 8] [Some 1, Some 0, Some 3] ! 1 = None \<and>
   Protein_to_Carbs_ratio [Some 10, Some 20, Some 5] [Some 5, Some 0, Some 8] ! 0 = Some (Finite 2)"
  using zero_denominator_ratio_undefined
      [of "[Some 10, Some 20, Some 5]" "[Some 5, Some 0, Some 8]" "[Some 1, Some 0, Some 3]" 1]
    zero_denominator_ratio_undefined
      [of "[Some 10, Some 20, Some 5]" "[Some 5, Some 0, Some 8]" "[Some 1, Some 0, Some 3]" 0]
  by simp

section \<open>Aggregation and sorting: properties\<close>

lemma desc_key_le: "desc_key a \<le> desc_key b \<longleftrightarrow> not_below a b"
  by (cases a; cases b) (simp_all add: desc_key_def)

lemma sorted_sort_values_desc:
  "sorted_wrt (\<lambda>g h. not_below (col g) (col h)) (sort_values_desc col rows)"
proof -
  have "sorted (map (\<lambda>r. desc_key (col r)) (sort_values_desc col rows))"
    unfolding sort_values_desc_def by (rule sorted_sort_key)
  then show ?thesis
    by (simp add: sorted_map desc_key_le)
qed

lemma mset_sort_values_desc: "mset (sort_values_desc col rows) = mset rows"
  by (simp add: sort_values_desc_def)

lemma set_sort_values_desc: "set (sort_values_desc col rows) = set rows"
  by (simp add: sort_values_desc_def)

lemma distinct_map_sort_values_desc:
  "distinct (map h (sort_values_desc col rows)) = distinct (map h rows)"
proof -
  have "mset (map h (sort_values_desc col rows)) = mset (map h rows)"
    by (simp add: mset_sort_values_desc)
  then show ?thesis
    by (rule mset_eq_imp_distinct_iff)
qed

lemma present_conv: "present xs = map the (filter (\<lambda>x. x \<noteq> None) xs)"
proof (induction xs)
  case Nil
  show ?case by simp
next
  case (Cons x xs)
  then show ?case by (cases x) simp_all
qed

lemma set_present: "set (present xs) = {v. Some v \<in> set xs}"
proof (induction xs)
  case Nil
  show ?case by simp
next
  case (Cons x xs)
  then show ?case by (cases x) auto
qed

lemma zip_conv_upt:
  "zip xs ys = map (\<lambda>i. (xs ! i, ys ! i)) [0..<min (length xs) (length ys)]"
  by (rule nth_equalityI) simp_all

lemma present_group_vals:
  "present (group_vals ks vs k) =
     map (\<lambda>i. the (vs ! i))
       (filter (\<lambda>i. ks ! i = Some k \<and> vs ! i \<noteq> None) [0..<min (length ks) (length vs)])"
  unfolding present_conv group_vals_def
  by (subst zip_conv_upt) (simp add: filter_map comp_def)

lemma set_group_filter:
  "set (filter (\<lambda>i. ks ! i = Some k \<and> vs ! i \<noteq> None) [0..<min (length ks) (length vs)])
     = group_members ks vs k"
  by (auto simp: group_members_def)

lemma mean_group_vals: "mean (group_vals ks vs k) = arithmetic_mean_of_group ks vs k"
proof -
  let ?L = "filter (\<lambda>i. ks ! i = Some k \<and> vs ! i \<noteq> None) [0..<min (length ks) (length vs)]"
  have d: "distinct ?L" by simp
  have s: "set ?L = group_members ks vs k" by (rule set_group_filter)
  have len: "length ?L = card (group_members ks vs k)"
    using distinct_card [OF d] s by simp
  have sm: "sum_list (map (\<lambda>i. the (vs ! i)) ?L) = (\<Sum>i \<in> group_members ks vs k. the (vs ! i))"
    using sum_list_distinct_conv_sum_set [OF d, of "\<lambda>i. the (vs ! i)"] s by simp
  have e: "?L = [] \<longleftrightarrow> group_members ks vs k = {}"
    using s by (metis set_empty)
  show ?thesis
    unfolding mean_def arithmetic_mean_of_group_def present_group_vals
    using len sm e by simp
qed

lemma group_keys_props:
  "set (group_keys ks) = {k. Some k \<in> set ks} \<and> distinct (group_keys ks) \<and> sorted (group_keys ks)"
  by (simp add: group_keys_def set_present)

lemma map_diet_type_groupby_mean: "map diet_type (groupby_mean ks ps cs fs) = group_keys ks"
  by (simp add: groupby_mean_def comp_def)

lemma groupby_mean_row:
  assumes "g \<in> set (groupby_mean ks ps cs fs)"
  shows "mean_protein g = arithmetic_mean_of_group ks ps (diet_type g) \<and>
         mean_carbs g = arithmetic_mean_of_group ks cs (diet_type g) \<and>
         mean_fat g = arithmetic_mean_of_group ks fs (diet_type g)"
  using assms by (auto simp: groupby_mean_def mean_group_vals)


lemma and_then_Inr_iff: "and_then m f = Inr y \<longleftrightarrow> (\<exists>x. m = Inr x \<and> f x = Inr y)"
  by (cases m) simp_all

lemma avg_macros_InrD:
  assumes "avg_macros df d p c f = Inr t"
  shows "\<exists>ks ps cs fs. key_col df d = Inr ks \<and> num_col df p = Inr ps \<and>
           num_col df c = Inr cs \<and> num_col df f = Inr fs \<and>
           t = sort_values_desc mean_protein (groupby_mean ks ps cs fs)"
  using assms
  unfolding avg_macros_def groupby_mean_df_def and_then_Inr_iff
  by auto

lemma two_groups_example:
  assumes "A \<noteq> B"
  shows "map (\<lambda>g. (diet_type g, mean_protein g))
           (sort_values_desc mean_protein
              (groupby_mean [Some A, Some A, Some B] [Some 10, Some 20, Some 5] cs fs)) =
         [(A, Some 15), (B, Some 5)]"
proof (cases "A \<le> B")
  case True
  with assms have k: "group_keys [Some A, Some A, Some B] = [A, B]"
    by (simp add: group_keys_def)
  show ?thesis
    using assms
    by (simp add: groupby_mean_def k group_vals_def mean_def sort_values_desc_def desc_key_def)
next
  case False
  with assms have k: "group_keys [Some A, Some A, Some B] = [B, A]"
    by (simp add: group_keys_def)
  show ?thesis
    using assms
    by (simp add: groupby_mean_def k group_vals_def mean_def sort_values_desc_def desc_key_def)
qed

lemma three_rows_run:
  "\<exists>a. snd (data_analysis three_rows_df) = Inr a \<and>
       map (\<lambda>g. (diet_type g, mean_protein g)) (an_avg_macros a) =
         [(Str ''A'', Some 15), (Str ''B'', Some 5)]"
  by (simp add: data_analysis_def Let_def required_def columns_def clean_def numeric_cols_def
      three_rows_df_def diet_names_def recipe_names_def cuisine_names_def protein_names_def
      carbs_names_def fat_names_def clean_step_def isna_any_def analyse_def avg_macros_def
      groupby_mean_df_def key_col_def num_col_def cells_def groupby_mean_def group_keys_def
      group_vals_def mean_def sort_values_desc_def desc_key_def top5_by_diet_def)

lemma pick_col_map_of:
  assumes "pick_col df names = Some n"
  shows "\<exists>col. map_of df n = Some col"
proof -
  have "n \<in> set (columns df)"
    using assms by (auto dest: pick_col_SomeD)
  then have "n \<in> fst ` set df"
    by (simp add: columns_def)
  then have "map_of df n \<noteq> None"
    by (simp add: map_of_eq_None_iff)
  then show ?thesis by blast
qed

lemma key_col_clean:
  assumes "map_of df n = Some col"
  shows "\<exists>ks. key_col (clean df) n = Inr ks"
proof (cases col)
  case (NumCol xs)
  with assms show ?thesis
    by (simp add: key_col_def map_of_clean_NumCol)
next
  case (ObjCol ss)
  with assms show ?thesis
    by (simp add: key_col_def map_of_clean_ObjCol)
qed

lemma num_col_clean:
  assumes "is_numeric df n"
  shows "\<exists>xs. num_col (clean df) n = Inr xs"
proof -
  from assms obtain xs where "map_of df n = Some (NumCol xs)"
    by (auto simp: is_numeric_def split: option.splits column.splits)
  then show ?thesis
    by (simp add: num_col_def map_of_clean_NumCol)
qed

lemma analyse_completes:
  assumes "key_col df d = Inr ds" "key_col df r = Inr rs" "key_col df c = Inr cs"
    "num_col df p = Inr ps" "num_col df b = Inr bs" "num_col df f = Inr fs"
  shows "\<exists>a. analyse df d r c p b f = Inr a"
  using assms
  by (simp add: analyse_def avg_macros_def groupby_mean_df_def top5_by_diet_def)

lemma data_analysis_completes:
  assumes req: "required df0 = [Some d, Some r, Some c, Some p, Some b, Some f]"
    and num: "is_numeric df0 p" "is_numeric df0 b" "is_numeric df0 f"
  shows "\<exists>a. snd (data_analysis df0) = Inr a"
proof -
  have picks: "pick_col df0 diet_names = Some d" "pick_col df0 recipe_names = Some r"
    "pick_col df0 cuisine_names = Some c"
    using req by (simp_all add: required_def)
  obtain ds rs cs where keys: "key_col (clean df0) d = Inr ds" "key_col (clean df0) r = Inr rs"
    "key_col (clean df0) c = Inr cs"
    using picks pick_col_map_of key_col_clean by meson
  obtain ps bs fs where nums: "num_col (clean df0) p = Inr ps" "num_col (clean df0) b = Inr bs"
    "num_col (clean df0) f = Inr fs"
    using num num_col_clean by meson
  obtain a where a: "analyse (clean df0) d r c p b f = Inr a"
    using analyse_completes [OF keys nums] by blast
  have nn: "None \<notin> set (required df0)"
    by (simp add: req)
  from data_analysis_go [OF nn] req a show ?thesis
    by auto
qed

lemma data_analysis_avg_macros:
  assumes req: "required df0 = [Some d, Some r, Some c, Some p, Some b, Some f]"
    and run: "snd (data_analysis df0) = Inr a"
  shows "avg_macros (clean df0) d p b f = Inr (an_avg_macros a)"
proof -
  have nn: "None \<notin> set (required df0)"
    by (simp add: req)
  from data_analysis_go [OF nn] req run
  have "analyse (clean df0) d r c p b f = Inr a"
    by (auto split: sum.splits)
  then show ?thesis
    unfolding analyse_def and_then_Inr_iff by auto
qed

lemma avg_macros_props:
  assumes t: "avg_macros df d p b f = Inr t"
    and cols: "key_col df d = Inr ks" "num_col df p = Inr ps" "num_col df b = Inr bs"
      "num_col df f = Inr fs"
  shows "set (map diet_type t) = {k. Some k \<in> set ks} \<and>
         distinct (map diet_type t) \<and>
         (\<forall>g \<in> set t. mean_protein g = arithmetic_mean_of_group ks ps (diet_type g) \<and>
                       mean_carbs g = arithmetic_mean_of_group ks bs (diet_type g) \<and>
                       mean_fat g = arithmetic_mean_of_group ks fs (diet_type g)) \<and>
         sorted_wrt (\<lambda>g h. not_below (mean_protein g) (mean_protein h)) t"
proof -
  let ?g = "groupby_mean ks ps bs fs"
  have eq: "t = sort_values_desc mean_protein ?g"
    using avg_macros_InrD [OF t] cols by auto
  have s: "set t = set ?g"
    by (simp add: eq set_sort_values_desc)
  have "set (map diet_type t) = set (map diet_type ?g)"
    by (simp add: s)
  then have 1: "set (map diet_type t) = {k. Some k \<in> set ks}"
    using group_keys_props [of ks] by (simp only: map_diet_type_groupby_mean)
  have "distinct (map diet_type t) = distinct (map diet_type ?g)"
    unfolding eq by (rule distinct_map_sort_values_desc)
  then have 2: "distinct (map diet_type t)"
    using group_keys_props [of ks] by (simp only: map_diet_type_groupby_mean)
  have 3: "\<forall>g \<in> set t. mean_protein g = arithmetic_mean_of_group ks ps (diet_type g) \<and>
                       mean_carbs g = arithmetic_mean_of_group ks bs (diet_type g) \<and>
                       mean_fat g = arithmetic_mean_of_group ks fs (diet_type g)"
    using groupby_mean_row s by blast
  have 4: "sorted_wrt (\<lambda>g h. not_below (mean_protein g) (mean_protein h)) t"
    unfolding eq by (rule sorted_sort_values_desc)
  show ?thesis
    using 1 2 3 4 by blast
qed

text \<open>
  C2. For every table whose six required fields resolve and whose three macro columns
  are numeric, the run reaches the aggregate; the aggregate it reports is \<^verbatim>\<open>avg_macros\<close>
  of the cleaned table on the resolved columns. \<^verbatim>\<open>avg_macros\<close> has exactly one row for
  each diet type that occurs, that row holds the arithmetic mean of the protein, carbs
  and fat values of the records of that diet type, and the rows are in descending
  order of mean protein. For diet types A, A, B (any two distinct values) with protein
  10, 20, 5 the rows are A with mean protein 15 and then B with mean protein 5, and so
  they are in the run on the three-row table.
\<close>

theorem avg_macros_group_means_sorted:
  "(required df0 = [Some d, Some r, Some c, Some p, Some b, Some f] \<and>
    is_numeric df0 p \<and> is_numeric df0 b \<and> is_numeric df0 f \<longrightarrow>
      (\<exists>a. snd (data_analysis df0) = Inr a)) \<and>
   (required df0 = [Some d, Some r, Some c, Some p, Some b, Some f] \<and>
    snd (data_analysis df0) = Inr a \<longrightarrow>
      avg_macros (clean df0) d p b f = Inr (an_avg_macros a)) \<and>
   (avg_macros df d p b f = Inr t \<and> key_col df d = Inr ks \<and> num_col df p = Inr ps \<and>
    num_col df b = Inr bs \<and> num_col df f = Inr fs \<longrightarrow>
      set (map diet_type t) = {k. Some k \<in> set ks} \<and>
      distinct (map diet_type t) \<and>
      (\<forall>g \<in> set t. mean_protein g = arithmetic_mean_of_group ks ps (diet_type g) \<and>
                    mean_carbs g = arithmetic_mean_of_group ks bs (diet_type g) \<and>
                    mean_fat g = arithmetic_mean_of_group ks fs (diet_type g)) \<and>
      sorted_wrt (\<lambda>g h. not_below (mean_protein g) (mean_protein h)) t) \<and>
   (A \<noteq> B \<longrightarrow>
      map (\<lambda>g. (diet_type g, mean_protein g))
        (sort_values_desc mean_protein
           (groupby_mean [Some A, Some A, Some B] [Some 10, Some 20, Some 5] bs' fs')) =
      [(A, Some 15), (B, Some 5)]) \<and>
   (\<exists>a. snd (data_analysis three_rows_df) = Inr a \<and>
        map (\<lambda>g. (diet_type g, mean_protein g)) (an_avg_macros a) =
          [(Str ''A'', Some 15), (Str ''B'', Some 5)])"
  using data_analysis_completes [of df0 d r c p b f]
    data_analysis_avg_macros [of df0 d r c p b f a]
    avg_macros_props [of df d p b f t ks ps bs fs]
    two_groups_example [of A B bs' fs']
    three_rows_run
  by blast


theorem avg_macros_group_means_sorted_witness:
  "required three_rows_df =
     [Some ''Diet_type'', Some ''Recipe_name'', Some ''Cuisine_type'',
      Some ''Protein(g)'', Some ''Carbs(g)'', Some ''Fat(g)''] \<and>
   is_numeric three_rows_df ''Protein(g)'' \<and> is_numeric three_rows_df ''Carbs(g)'' \<and>
   is_numeric three_rows_df ''Fat(g)'' \<and>
   (\<exists>a. snd (data_analysis three_rows_df) = Inr a \<and>
        avg_macros (clean three_rows_df) ''Diet_type'' ''Protein(g)'' ''Carbs(g)'' ''Fat(g)'' =
          Inr (an_avg_macros a)) \<and>
   (\<exists>t. avg_macros three_rows_df ''Diet_type'' ''Protein(g)'' ''Carbs(g)'' ''Fat(g)'' = Inr t \<and>
        set (map diet_type t) = {Str ''A'', Str ''B''} \<and>
        distinct (map diet_type t) \<and>
        sorted_wrt (\<lambda>g h. not_below (mean_protein g) (mean_protein h)) t) \<and>
   Str ''keto'' \<noteq> Str ''dash'' \<and>
   map (\<lambda>g. (diet_type g, mean_protein g))
     (sort_values_desc mean_protein
        (groupby_mean [Some (Str ''keto''), Some (Str ''keto''), Some (Str ''dash'')]
           [Some 10, Some 20, Some 5] [Some 4, Some 6, Some 9] [Some 7, Some 3, Some 2])) =
     [(Str ''keto'', Some 15), (Str ''dash'', Some 5)]"
proof -
  have req: "required three_rows_df =
     [Some ''Diet_type'', Some ''Recipe_name'', Some ''Cuisine_type'',
      Some ''Protein(g)'', Some ''Carbs(g)'', Some ''Fat(g)'']"
    by (simp add: required_def three_rows_df_def columns_def diet_names_def recipe_names_def
        cuisine_names_def protein_names_def carbs_names_def fat_names_def)
  have num: "is_numeric three_rows_df ''Protein(g)''" "is_numeric three_rows_df ''Carbs(g)''"
    "is_numeric three_rows_df ''Fat(g)''"
    by (simp_all add: is_numeric_def three_rows_df_def)
  note inst = avg_macros_group_means_sorted
    [where ?df0.0 = three_rows_df and d = "''Diet_type''" and r = "''Recipe_name''"
       and c = "''Cuisine_type''" and p = "''Protein(g)''" and b = "''Carbs(g)''"
       and f = "''Fat(g)''" and df = three_rows_df
       and ks = "[Some (Str ''A''), Some (Str ''A''), Some (Str ''B'')]"
       and ps = "[Some 10, Some 20, Some 5]" and bs = "[Some 5, Some 0, Some 8]"
       and fs = "[Some 1, Some 2, Some 3]"
       and A = "Str ''keto''" and B = "Str ''dash''"
       and bs' = "[Some 4, Some 6, Some 9]" and fs' = "[Some 7, Some 3, Some 2]"]
  have ks: "key_col three_rows_df ''Diet_type'' = Inr [Some (Str ''A''), Some (Str ''A''), Some (Str ''B'')]"
    by (simp add: key_col_def three_rows_df_def cells_def)
  have ps: "num_col three_rows_df ''Protein(g)'' = Inr [Some 10, Some 20, Some 5]"
    by (simp add: num_col_def three_rows_df_def)
  have bs: "num_col three_rows_df ''Carbs(g)'' = Inr [Some 5, Some 0, Some 8]"
    by (simp add: num_col_def three_rows_df_def)
  have fs: "num_col three_rows_df ''Fat(g)'' = Inr [Some 1, Some 2, Some 3]"
    by (simp add: num_col_def three_rows_df_def)
  obtain t where t: "avg_macros three_rows_df ''Diet_type'' ''Protein(g)'' ''Carbs(g)'' ''Fat(g)'' = Inr t"
    by (simp add: avg_macros_def groupby_mean_df_def ks ps bs fs)
  have keys: "{k. Some k \<in> set [Some (Str ''A''), Some (Str ''A''), Some (Str ''B'')]} = {Str ''A'', Str ''B''}"
    by auto
  have ne: "Str ''keto'' \<noteq> Str ''dash''"
    by simp
  obtain a where a: "snd (data_analysis three_rows_df) = Inr a"
    using inst req num by blast
  have link: "avg_macros (clean three_rows_df) ''Diet_type'' ''Protein(g)'' ''Carbs(g)'' ''Fat(g)'' =
      Inr (an_avg_macros a)"
    using inst [where a = a and t = t] req a by blast
  have props: "set (map diet_type t) = {Str ''A'', Str ''B''} \<and> distinct (map diet_type t) \<and>
      sorted_wrt (\<lambda>g h. not_below (mean_protein g) (mean_protein h)) t"
    using inst [where a = a and t = t] t ks ps bs fs keys by simp
  have ex: "map (\<lambda>g. (diet_type g, mean_protein g))
     (sort_values_desc mean_protein
        (groupby_mean [Some (Str ''keto''), Some (Str ''keto''), Some (Str ''dash'')]
           [Some 10, Some 20, Some 5] [Some 4, Some 6, Some 9] [Some 7, Some 3, Some 2])) =
     [(Str ''keto'', Some 15), (Str ''dash'', Some 5)]"
    using inst [where a = a and t = t] ne by blast
  show ?thesis
    using req num a link t props ne ex by blast
qed

section \<open>Top protein recipes: properties\<close>

lemma not_below_not_lower: "not_below a b \<Longrightarrow> \<not> lower a b"
  by (cases a; cases b) simp_all

lemma filter_groupby_head:
  "filter (\<lambda>r. key r = Some k) (groupby_head n key seen rs) =
     take (n - count_list seen k) (filter (\<lambda>r. key r = Some k) rs)"
proof (induction rs arbitrary: seen)
  case Nil
  show ?case by simp
next
  case (Cons r rs)
  show ?case
  proof (cases "key r")
    case None
    then show ?thesis by (simp add: Cons.IH)
  next
    case (Some k')
    show ?thesis
    proof (cases "k' = k")
      case True
      show ?thesis
      proof (cases "count_list seen k < n")
        case True
        then obtain m where m: "n - count_list seen k = Suc m"
          by (metis Suc_diff_Suc)
        then have "n - Suc (count_list seen k) = m"
          by simp
        with Some \<open>k' = k\<close> True m show ?thesis
          by (simp add: Cons.IH)
      next
        case False
        with Some \<open>k' = k\<close> show ?thesis
          by (simp add: Cons.IH)
      qed
    next
      case False
      with Some show ?thesis by (simp add: Cons.IH)
    qed
  qed
qed

lemma set_groupby_head_subset: "set (groupby_head n key seen rs) \<subseteq> set rs"
proof (induction rs arbitrary: seen)
  case Nil
  show ?case by simp
next
  case (Cons r rs)
  show ?case
    using Cons.IH by (cases "key r") (auto split: if_splits)
qed

lemma filter_top5:
  "filter (\<lambda>r. diet r = Some k) (top5 rows) =
     take 5 (filter (\<lambda>r. diet r = Some k) (sort_values_desc protein rows))"
  by (simp add: top5_def filter_groupby_head)

lemma top5_best:
  assumes r: "r \<in> set (top5 rows)" and r': "r' \<in> set rows" "r' \<notin> set (top5 rows)"
    and k: "diet r = Some k" "diet r' = Some k"
  shows "not_below (protein r) (protein r')"
proof -
  let ?G = "filter (\<lambda>r. diet r = Some k) (sort_values_desc protein rows)"
  have sorted: "sorted_wrt (\<lambda>g h. not_below (protein g) (protein h)) ?G"
    by (rule sorted_wrt_filter) (rule sorted_sort_values_desc)
  have "r \<in> set (filter (\<lambda>r. diet r = Some k) (top5 rows))"
    using r k by simp
  then have in_take: "r \<in> set (take 5 ?G)"
    by (simp only: filter_top5)
  have "r' \<in> set ?G"
    using r' k by (simp add: set_sort_values_desc)
  moreover have "r' \<notin> set (take 5 ?G)"
  proof
    assume "r' \<in> set (take 5 ?G)"
    then have "r' \<in> set (filter (\<lambda>r. diet r = Some k) (top5 rows))"
      by (simp only: filter_top5)
    with r' show False by simp
  qed
  ultimately have in_drop: "r' \<in> set (drop 5 ?G)"
    by (metis Un_iff append_take_drop_id set_append)
  have "sorted_wrt (\<lambda>g h. not_below (protein g) (protein h)) (take 5 ?G @ drop 5 ?G)"
    using sorted by simp
  then show ?thesis
    using in_take in_drop unfolding sorted_wrt_append by blast
qed

lemma top5_by_diet_rows:
  assumes "top5_by_diet df d r c p b f = Inr t"
  shows "\<exists>ds rs cs ps bs fs. key_col df d = Inr ds \<and> key_col df r = Inr rs \<and>
           key_col df c = Inr cs \<and> num_col df p = Inr ps \<and> num_col df b = Inr bs \<and>
           num_col df f = Inr fs \<and> t = top5 (rows_of ds rs cs ps bs fs)"
  using assms unfolding top5_by_diet_def and_then_Inr_iff by auto

lemma data_analysis_top5:
  assumes req: "required df0 = [Some d, Some r, Some c, Some p, Some b, Some f]"
    and run: "snd (data_analysis df0) = Inr a"
  shows "top5_by_diet (clean df0) d r c p b f = Inr (an_top5 a)"
proof -
  have nn: "None \<notin> set (required df0)"
    by (simp add: req)
  from data_analysis_go [OF nn] req run
  have "analyse (clean df0) d r c p b f = Inr a"
    by (auto split: sum.splits)
  then show ?thesis
    unfolding analyse_def and_then_Inr_iff by auto
qed

lemma distinct_rows_of: "distinct (map idx (rows_of ds rs cs ps bs fs))"
proof -
  have "map idx (rows_of ds rs cs ps bs fs) =
        map fst (zip [0..<length ds] (zip ds (zip rs (zip cs (zip ps (zip bs fs))))))"
    by (simp add: rows_of_def comp_def case_prod_beta)
  also have "\<dots> = take (min (length [0..<length ds])
                             (length (zip ds (zip rs (zip cs (zip ps (zip bs fs)))))))
                     [0..<length ds]"
    by (rule map_fst_zip_take)
  finally show ?thesis
    by (simp only: distinct_take distinct_upt)
qed

text \<open>
  C3. The top-protein selection the run reports is \<open>top5\<close> of the records of the cleaned
  table, which are distinct (each has its own index). For every list of records and
  every diet type \<open>k\<close>: the selection contains only records of the list, at most 5 of
  them have diet type \<open>k\<close>, and no selected record of diet type \<open>k\<close> has strictly lower
  protein than a record of diet type \<open>k\<close> that was left out.
\<close>

theorem top5_at_most_five_best:
  "(required df0 = [Some d, Some r, Some c, Some p, Some b, Some f] \<and>
    snd (data_analysis df0) = Inr a \<longrightarrow>
      (\<exists>ds rs cs ps bs fs. an_top5 a = top5 (rows_of ds rs cs ps bs fs) \<and>
         key_col (clean df0) d = Inr ds \<and> key_col (clean df0) r = Inr rs \<and>
         key_col (clean df0) c = Inr cs \<and> num_col (clean df0) p = Inr ps \<and>
         num_col (clean df0) b = Inr bs \<and> num_col (clean df0) f = Inr fs)) \<and>
   distinct (map idx (rows_of ds rs cs ps bs fs)) \<and>
   set (top5 rows) \<subseteq> set rows \<and>
   length (filter (\<lambda>x. diet x = Some k) (top5 rows)) \<le> 5 \<and>
   (x \<in> set (top5 rows) \<and> y \<in> set rows \<and> y \<notin> set (top5 rows) \<and>
    diet x = Some k \<and> diet y = Some k \<longrightarrow> \<not> lower (protein x) (protein y))"
proof (intro conjI impI)
  assume h: "required df0 = [Some d, Some r, Some c, Some p, Some b, Some f] \<and>
    snd (data_analysis df0) = Inr a"
  then have "top5_by_diet (clean df0) d r c p b f = Inr (an_top5 a)"
    using data_analysis_top5 by blast
  from top5_by_diet_rows [OF this]
  show "\<exists>ds rs cs ps bs fs. an_top5 a = top5 (rows_of ds rs cs ps bs fs) \<and>
         key_col (clean df0) d = Inr ds \<and> key_col (clean df0) r = Inr rs \<and>
         key_col (clean df0) c = Inr cs \<and> num_col (clean df0) p = Inr ps \<and>
         num_col (clean df0) b = Inr bs \<and> num_col (clean df0) f = Inr fs"
    by blast
next
  show "distinct (map idx (rows_of ds rs cs ps bs fs))"
    by (rule distinct_rows_of)
  show "set (top5 rows) \<subseteq> set rows"
    using set_groupby_head_subset [of 5 diet "[]" "sort_values_desc protein rows"]
    by (simp add: top5_def set_sort_values_desc)
  show "length (filter (\<lambda>x. diet x = Some k) (top5 rows)) \<le> 5"
    by (simp add: filter_top5)
next
  assume "x \<in> set (top5 rows) \<and> y \<in> set rows \<and> y \<notin> set (top5 rows) \<and>
    diet x = Some k \<and> diet y = Some k"
  then have "not_below (protein x) (protein y)"
    using top5_best by blast
  then show "\<not> lower (protein x) (protein y)"
    by (rule not_below_not_lower)
qed


lemma top5_seven_rows:
  "row0 \<in> set (top5 seven_rows) \<and> row2 \<in> set seven_rows \<and> row2 \<notin> set (top5 seven_rows)"
  by (simp add: seven_rows_def rows_of_def top5_def sort_values_desc_def desc_key_def upt_rec
      row0_def row2_def)

theorem top5_at_most_five_best_witness:
  "required three_rows_df =
     [Some ''Diet_type'', Some ''Recipe_name'', Some ''Cuisine_type'',
      Some ''Protein(g)'', Some ''Carbs(g)'', Some ''Fat(g)''] \<and>
   (\<exists>a. snd (data_analysis three_rows_df) = Inr a \<and>
        (\<exists>ds rs cs ps bs fs. an_top5 a = top5 (rows_of ds rs cs ps bs fs))) \<and>
   row0 \<in> set (top5 seven_rows) \<and> row2 \<in> set seven_rows \<and> row2 \<notin> set (top5 seven_rows) \<and>
   diet row0 = Some (Str ''vegan'') \<and> diet row2 = Some (Str ''vegan'') \<and>
   \<not> lower (protein row0) (protein row2) \<and>
   length (filter (\<lambda>x. diet x = Some (Str ''vegan'')) (top5 seven_rows)) \<le> 5"
proof -
  have req: "required three_rows_df =
     [Some ''Diet_type'', Some ''Recipe_name'', Some ''Cuisine_type'',
      Some ''Protein(g)'', Some ''Carbs(g)'', Some ''Fat(g)'']"
    by (simp add: required_def three_rows_df_def columns_def diet_names_def recipe_names_def
        cuisine_names_def protein_names_def carbs_names_def fat_names_def)
  obtain a where a: "snd (data_analysis three_rows_df) = Inr a"
    using three_rows_run by blast
  note inst = top5_at_most_five_best
    [where ?df0.0 = three_rows_df and d = "''Diet_type''" and r = "''Recipe_name''"
       and c = "''Cuisine_type''" and p = "''Protein(g)''" and b = "''Carbs(g)''"
       and f = "''Fat(g)''" and a = a and rows = seven_rows and x = row0 and y = row2
       and k = "Str ''vegan''"]
  have rows: "\<exists>ds rs cs ps bs fs. an_top5 a = top5 (rows_of ds rs cs ps bs fs)"
    using inst req a by blast
  have mem: "row0 \<in> set (top5 seven_rows)" "row2 \<in> set seven_rows"
    "row2 \<notin> set (top5 seven_rows)"
    using top5_seven_rows by simp_all
  have k: "diet row0 = Some (Str ''vegan'')" "diet row2 = Some (Str ''vegan'')"
    by (simp_all add: row0_def row2_def)
  have best: "\<not> lower (protein row0) (protein row2)"
    using inst mem k by blast
  have five: "length (filter (\<lambda>x. diet x = Some (Str ''vegan'')) (top5 seven_rows)) \<le> 5"
    using inst by blast
  show ?thesis
    using req a rows mem k best five by blast
qed

section \<open>The remote fetch job: properties\<close>

lemma process_InrD:
  assumes "snd (process_nutritional_data_from_azurite env) = Inr (json, msg)"
  shows "\<exists>df. download_blob env = Inr df \<and>
           groupby_mean_df df ''Diet_type'' ''Protein(g)'' ''Carbs(g)'' ''Fat(g)'' = Inr json \<and>
           open_results env = None \<and> msg = ''Data processed and stored successfully.''"
  using assms
  unfolding process_nutritional_data_from_azurite_def
  by (auto simp: and_then_Inr_iff split: sum.splits option.splits)

lemma groupby_mean_df_InrD:
  assumes "groupby_mean_df df d p c f = Inr t"
  shows "\<exists>ks ps cs fs. key_col df d = Inr ks \<and> num_col df p = Inr ps \<and>
           num_col df c = Inr cs \<and> num_col df f = Inr fs \<and> t = groupby_mean ks ps cs fs"
  using assms unfolding groupby_mean_df_def and_then_Inr_iff by auto

lemma process_keys:
  assumes run: "snd (process_nutritional_data_from_azurite env) = Inr (json, msg)"
    and blob: "download_blob env = Inr df" and ks: "key_col df ''Diet_type'' = Inr ks"
  shows "map diet_type json = group_keys ks"
proof -
  from process_InrD [OF run] blob
  have "groupby_mean_df df ''Diet_type'' ''Protein(g)'' ''Carbs(g)'' ''Fat(g)'' = Inr json"
    by auto
  from groupby_mean_df_InrD [OF this] ks obtain ps cs fs where
    "json = groupby_mean ks ps cs fs"
    by auto
  then show ?thesis
    by (simp add: map_diet_type_groupby_mean)
qed

lemma keto_dash_pipeline:
  "pipeline_means keto_dash_df =
     Inr [\<lparr>diet_type = Str ''keto'', mean_protein = Some 35, mean_carbs = Some 6, mean_fat = Some 45\<rparr>,
          \<lparr>diet_type = Str ''dash'', mean_protein = Some 12, mean_carbs = Some 60, mean_fat = Some 10\<rparr>]"
  by (simp add: pipeline_means_def data_analysis_def Let_def required_def columns_def clean_def
      numeric_cols_def keto_dash_df_def diet_names_def recipe_names_def cuisine_names_def
      protein_names_def carbs_names_def fat_names_def clean_step_def isna_any_def analyse_def
      avg_macros_def groupby_mean_df_def key_col_def num_col_def cells_def groupby_mean_def
      group_keys_def group_vals_def mean_def sort_values_desc_def desc_key_def top5_by_diet_def)

lemma keto_dash_job:
  "job_means (container_exists keto_dash_df) =
     Inr [\<lparr>diet_type = Str ''dash'', mean_protein = Some 12, mean_carbs = Some 60, mean_fat = Some 10\<rparr>,
          \<lparr>diet_type = Str ''keto'', mean_protein = Some 35, mean_carbs = Some 6, mean_fat = Some 45\<rparr>]"
  by (simp add: job_means_def container_exists_def process_nutritional_data_from_azurite_def
      ensure_container_def keto_dash_df_def
      groupby_mean_df_def key_col_def num_col_def cells_def groupby_mean_def
      group_keys_def group_vals_def mean_def)

lemma keto_dash_run:
  "snd (process_nutritional_data_from_azurite (container_exists keto_dash_df)) =
     Inr ([\<lparr>diet_type = Str ''dash'', mean_protein = Some 12, mean_carbs = Some 60, mean_fat = Some 10\<rparr>,
           \<lparr>diet_type = Str ''keto'', mean_protein = Some 35, mean_carbs = Some 6, mean_fat = Some 45\<rparr>],
          ''Data processed and stored successfully.'')"
  by (simp add: container_exists_def process_nutritional_data_from_azurite_def
      ensure_container_def keto_dash_df_def
      groupby_mean_df_def key_col_def num_col_def cells_def groupby_mean_def
      group_keys_def group_vals_def mean_def)

lemma num_col_numeric:
  assumes "is_numeric df n"
  shows "\<exists>xs. num_col df n = Inr xs"
  using assms by (auto simp: is_numeric_def num_col_def split: option.splits column.splits)

lemma process_existing_container:
  assumes "create_container env = Some ResourceExistsError"
  shows "fst (process_nutritional_data_from_azurite env) = [ContainerAlreadyExists] \<and>
         snd (process_nutritional_data_from_azurite env) =
           snd (process_nutritional_data_from_azurite (env\<lparr>create_container := None\<rparr>))"
  using assms
  by (simp add: process_nutritional_data_from_azurite_def ensure_container_def)

lemma process_completes:
  assumes c: "create_container env = Some ResourceExistsError"
    and blob: "download_blob env = Inr df"
    and ks: "key_col df ''Diet_type'' = Inr ks"
    and num: "is_numeric df ''Protein(g)''" "is_numeric df ''Carbs(g)''" "is_numeric df ''Fat(g)''"
    and wr: "open_results env = None"
  shows "\<exists>json. snd (process_nutritional_data_from_azurite env) =
                  Inr (json, ''Data processed and stored successfully.'')"
proof -
  obtain ps bs fs where cols: "num_col df ''Protein(g)'' = Inr ps"
    "num_col df ''Carbs(g)'' = Inr bs" "num_col df ''Fat(g)'' = Inr fs"
    using num num_col_numeric by meson
  show ?thesis
    using c blob ks cols wr
    by (simp add: process_nutritional_data_from_azurite_def ensure_container_def
        groupby_mean_df_def)
qed

lemma process_length:
  assumes run: "snd (process_nutritional_data_from_azurite env) = Inr (json, msg)"
    and blob: "download_blob env = Inr df" and ks: "key_col df ''Diet_type'' = Inr ks"
  shows "length json = card {k. Some k \<in> set ks}"
proof -
  have "length json = length (map diet_type json)"
    by simp
  also have "\<dots> = length (group_keys ks)"
    by (simp only: process_keys [OF run blob ks])
  also have "\<dots> = card (set (group_keys ks))"
  proof -
    have "distinct (group_keys ks)"
      using group_keys_props [of ks] by blast
    then show ?thesis
      by (simp add: distinct_card)
  qed
  also have "\<dots> = card {k. Some k \<in> set ks}"
  proof -
    have "set (group_keys ks) = {k. Some k \<in> set ks}"
      using group_keys_props [of ks] by blast
    then show ?thesis
      by (simp only:)
  qed
  finally show ?thesis .
qed

text \<open>
  C10. The list of records written by the remote job has one record for each diet type
  that occurs in the downloaded table, in ascending order of the diet type (the order
  of the group keys), not in the order of mean protein that the pipeline's aggregate
  has: on \<open>keto_dash_df\<close> the job writes dash before keto, the pipeline reports keto (mean
  protein 35) before dash (mean protein 12).
\<close>

theorem results_json_ordered_by_key:
  "(snd (process_nutritional_data_from_azurite env) = Inr (json, msg) \<and>
    download_blob env = Inr df \<and> key_col df ''Diet_type'' = Inr ks \<longrightarrow>
      sorted (map diet_type json) \<and> distinct (map diet_type json) \<and>
      set (map diet_type json) = {k. Some k \<in> set ks}) \<and>
   job_means (container_exists keto_dash_df) =
     Inr [\<lparr>diet_type = Str ''dash'', mean_protein = Some 12, mean_carbs = Some 60, mean_fat = Some 10\<rparr>,
          \<lparr>diet_type = Str ''keto'', mean_protein = Some 35, mean_carbs = Some 6, mean_fat = Some 45\<rparr>] \<and>
   pipeline_means keto_dash_df =
     Inr [\<lparr>diet_type = Str ''keto'', mean_protein = Some 35, mean_carbs = Some 6, mean_fat = Some 45\<rparr>,
          \<lparr>diet_type = Str ''dash'', mean_protein = Some 12, mean_carbs = Some 60, mean_fat = Some 10\<rparr>]"
  using process_keys [of env json msg df ks] group_keys_props [of ks]
    keto_dash_job keto_dash_pipeline
  by auto


theorem results_json_ordered_by_key_witness:
  "snd (process_nutritional_data_from_azurite (container_exists keto_dash_df)) =
     Inr ([\<lparr>diet_type = Str ''dash'', mean_protein = Some 12, mean_carbs = Some 60, mean_fat = Some 10\<rparr>,
           \<lparr>diet_type = Str ''keto'', mean_protein = Some 35, mean_carbs = Some 6, mean_fat = Some 45\<rparr>],
          ''Data processed and stored successfully.'') \<and>
   download_blob (container_exists keto_dash_df) = Inr keto_dash_df \<and>
   key_col keto_dash_df ''Diet_type'' =
     Inr [Some (Str ''keto''), Some (Str ''dash''), Some (Str ''keto'')] \<and>
   sorted [Str ''dash'', Str ''keto''] \<and> distinct [Str ''dash'', Str ''keto''] \<and>
   set [Str ''dash'', Str ''keto''] =
     {k. Some k \<in> set [Some (Str ''keto''), Some (Str ''dash''), Some (Str ''keto'')]}"
proof -
  have blob: "download_blob (container_exists keto_dash_df) = Inr keto_dash_df"
    by (simp add: container_exists_def)
  have ks: "key_col keto_dash_df ''Diet_type'' =
      Inr [Some (Str ''keto''), Some (Str ''dash''), Some (Str ''keto'')]"
    by (simp add: key_col_def keto_dash_df_def cells_def)
  show ?thesis
    using keto_dash_run blob ks
      results_json_ordered_by_key
        [where env = "container_exists keto_dash_df" and df = keto_dash_df
           and json = "[\<lparr>diet_type = Str ''dash'', mean_protein = Some 12, mean_carbs = Some 60, mean_fat = Some 10\<rparr>,
                        \<lparr>diet_type = Str ''keto'', mean_protein = Some 35, mean_carbs = Some 6, mean_fat = Some 45\<rparr>]"
           and msg = "''Data processed and stored successfully.''"
           and ks = "[Some (Str ''keto''), Some (Str ''dash''), Some (Str ''keto'')]"]
    by simp
qed

text \<open>
  C8. In a run in which \<^verbatim>\<open>create_container()\<close> raises because the container exists, the
  job prints its line and goes on exactly as a run in which the container was created;
  if the blob then holds a table with the column \<^verbatim>\<open>Diet_type\<close> and numeric macro
  columns and the file can be written, the job returns its message. Whenever the job
  writes its list, the length of the list is the number of distinct diet types in the
  downloaded table.
\<close>

theorem existing_container_is_success:
  "(create_container env = Some ResourceExistsError \<longrightarrow>
      fst (process_nutritional_data_from_azurite env) = [ContainerAlreadyExists] \<and>
      snd (process_nutritional_data_from_azurite env) =
        snd (process_nutritional_data_from_azurite (env\<lparr>create_container := None\<rparr>))) \<and>
   (create_container env = Some ResourceExistsError \<and> download_blob env = Inr df \<and>
    key_col df ''Diet_type'' = Inr ks \<and> is_numeric df ''Protein(g)'' \<and>
    is_numeric df ''Carbs(g)'' \<and> is_numeric df ''Fat(g)'' \<and> open_results env = None \<longrightarrow>
      (\<exists>json. snd (process_nutritional_data_from_azurite env) =
                 Inr (json, ''Data processed and stored successfully.''))) \<and>
   (snd (process_nutritional_data_from_azurite env) = Inr (json, msg) \<and>
    download_blob env = Inr df \<and> key_col df ''Diet_type'' = Inr ks \<longrightarrow>
      length json = card {k. Some k \<in> set ks})"
  using process_existing_container [of env] process_completes [of env df ks]
    process_length [of env json msg df ks]
  by blast

theorem existing_container_is_success_witness:
  "create_container (container_exists three_rows_df) = Some ResourceExistsError \<and>
   download_blob (container_exists three_rows_df) = Inr three_rows_df \<and>
   key_col three_rows_df ''Diet_type'' = Inr [Some (Str ''A''), Some (Str ''A''), Some (Str ''B'')] \<and>
   is_numeric three_rows_df ''Protein(g)'' \<and> is_numeric three_rows_df ''Carbs(g)'' \<and>
   is_numeric three_rows_df ''Fat(g)'' \<and> open_results (container_exists three_rows_df) = None \<and>
   fst (process_nutritional_data_from_azurite (container_exists three_rows_df)) =
     [ContainerAlreadyExists] \<and>
   (\<exists>json. snd (process_nutritional_data_from_azurite (container_exists three_rows_df)) =
              Inr (json, ''Data processed and stored successfully.'') \<and>
           length json = 2)"
proof -
  let ?env = "container_exists three_rows_df"
  let ?ks = "[Some (Str ''A''), Some (Str ''A''), Some (Str ''B'')]"
  have c: "create_container ?env = Some ResourceExistsError"
    and blob: "download_blob ?env = Inr three_rows_df"
    and wr: "open_results ?env = None"
    by (simp_all add: container_exists_def)
  have ks: "key_col three_rows_df ''Diet_type'' = Inr ?ks"
    by (simp add: key_col_def three_rows_df_def cells_def)
  have num: "is_numeric three_rows_df ''Protein(g)''" "is_numeric three_rows_df ''Carbs(g)''"
    "is_numeric three_rows_df ''Fat(g)''"
    by (simp_all add: is_numeric_def three_rows_df_def)
  have two: "card {k. Some k \<in> set ?ks} = 2"
  proof -
    have "{k. Some k \<in> set ?ks} = {Str ''A'', Str ''B''}"
      by auto
    then show ?thesis by simp
  qed
  note inst = existing_container_is_success [where env = ?env and df = three_rows_df and ks = ?ks]
  have line: "fst (process_nutritional_data_from_azurite ?env) = [ContainerAlreadyExists]"
    using inst c by blast
  obtain json where json: "snd (process_nutritional_data_from_azurite ?env) =
      Inr (json, ''Data processed and stored successfully.'')"
    using inst c blob ks num wr by blast
  have "length json = card {k. Some k \<in> set ?ks}"
    using inst [where json = json and msg = "''Data processed and stored successfully.''"]
      json blob ks by blast
  then have "length json = 2"
    by (simp only: two)
  then show ?thesis
    using c blob ks num wr line json by blast
qed

text \<open>
  C9. The claim fails on the code at a connection failure during container setup: the
  \<^verbatim>\<open>except Exception\<close> clause catches \<^verbatim>\<open>ServiceRequestError\<close> as it catches
  \<^verbatim>\<open>ResourceExistsError\<close>, the job prints \<^verbatim>\<open>Container already exists\<close>, and when the
  download then succeeds it runs to its end and returns its message.
\<close>

theorem setup_connection_failure_swallowed:
  "process_nutritional_data_from_azurite
     \<lparr>create_container = Some ServiceRequestError, download_blob = Inr three_rows_df,
      open_results = None\<rparr> =
   ([ContainerAlreadyExists],
    Inr ([\<lparr>diet_type = Str ''A'', mean_protein = Some 15, mean_carbs = Some (5 / 2),
            mean_fat = Some (3 / 2)\<rparr>,
          \<lparr>diet_type = Str ''B'', mean_protein = Some 5, mean_carbs = Some 8,
            mean_fat = Some 3\<rparr>],
         ''Data processed and stored successfully.''))"
  by (simp add: process_nutritional_data_from_azurite_def ensure_container_def three_rows_df_def
      groupby_mean_df_def key_col_def num_col_def cells_def groupby_mean_def
      group_keys_def group_vals_def mean_def)

section \<open>The two flows compared\<close>

lemma key_col_clean_no_gaps:
  assumes "no_gaps df n"
  shows "key_col (clean df) n = key_col df n"
proof (cases "map_of df n")
  case None
  then show ?thesis
    by (simp add: key_col_def map_of_clean_None)
next
  case (Some col)
  show ?thesis
  proof (cases col)
    case (NumCol xs)
    with Some assms have "\<not> isna_any xs"
      by (simp add: no_gaps_def)
    with Some NumCol show ?thesis
      by (simp add: key_col_def map_of_clean_NumCol)
  next
    case (ObjCol ss)
    with Some show ?thesis
      by (simp add: key_col_def map_of_clean_ObjCol)
  qed
qed

lemma num_col_clean_no_gaps:
  assumes "no_gaps df n"
  shows "num_col (clean df) n = num_col df n"
proof (cases "map_of df n")
  case None
  then show ?thesis
    by (simp add: num_col_def map_of_clean_None)
next
  case (Some col)
  show ?thesis
  proof (cases col)
    case (NumCol xs)
    with Some assms have "\<not> isna_any xs"
      by (simp add: no_gaps_def)
    with Some NumCol show ?thesis
      by (simp add: num_col_def map_of_clean_NumCol)
  next
    case (ObjCol ss)
    with Some show ?thesis
      by (simp add: num_col_def map_of_clean_ObjCol)
  qed
qed

lemma groupby_mean_df_clean:
  assumes "no_gaps df d" "no_gaps df p" "no_gaps df b" "no_gaps df f"
  shows "groupby_mean_df (clean df) d p b f = groupby_mean_df df d p b f"
  using assms
  by (simp add: groupby_mean_df_def key_col_clean_no_gaps num_col_clean_no_gaps)


lemma is_numeric_column:
  assumes "is_numeric df n"
  shows "n \<in> set (columns df)"
proof -
  from assms obtain xs where "map_of df n = Some (NumCol xs)"
    by (auto simp: is_numeric_def split: option.splits column.splits)
  then have "(n, NumCol xs) \<in> set df"
    by (rule map_of_SomeD)
  then show ?thesis
    by (force simp: columns_def)
qed

lemma key_col_column:
  assumes "n \<in> set (columns df)"
  shows "\<exists>ks. key_col df n = Inr ks"
proof -
  from assms have "n \<in> fst ` set df"
    by (simp add: columns_def)
  then have "map_of df n \<noteq> None"
    by (simp add: map_of_eq_None_iff)
  then show ?thesis
    by (auto simp: key_col_def)
qed

lemma canonical_required:
  assumes acc: "None \<notin> set (required df)"
    and d: "''Diet_type'' \<in> set (columns df)"
    and num: "is_numeric df ''Protein(g)''" "is_numeric df ''Carbs(g)''" "is_numeric df ''Fat(g)''"
  shows "\<exists>r c. required df =
           [Some ''Diet_type'', Some r, Some c, Some ''Protein(g)'', Some ''Carbs(g)'', Some ''Fat(g)'']"
proof -
  have 1: "pick_col df diet_names = Some ''Diet_type''"
    using d by (simp add: diet_names_def)
  have 2: "pick_col df protein_names = Some ''Protein(g)''"
    using is_numeric_column [OF num(1)] by (simp add: protein_names_def)
  have 3: "pick_col df carbs_names = Some ''Carbs(g)''"
    using is_numeric_column [OF num(2)] by (simp add: carbs_names_def)
  have 4: "pick_col df fat_names = Some ''Fat(g)''"
    using is_numeric_column [OF num(3)] by (simp add: fat_names_def)
  from acc have "None \<noteq> pick_col df recipe_names" "None \<noteq> pick_col df cuisine_names"
    by (simp_all add: required_def)
  then obtain r c where "pick_col df recipe_names = Some r" "pick_col df cuisine_names = Some c"
    by (cases "pick_col df recipe_names"; cases "pick_col df cuisine_names") simp_all
  with 1 2 3 4 show ?thesis
    by (simp add: required_def)
qed

lemma job_means_completes:
  assumes c: "create_container env = None \<or> create_container env = Some ResourceExistsError"
    and blob: "download_blob env = Inr df" and wr: "open_results env = None"
    and g: "groupby_mean_df df ''Diet_type'' ''Protein(g)'' ''Carbs(g)'' ''Fat(g)'' = Inr j"
  shows "job_means env = Inr j"
proof -
  from c have "ensure_container env = Inr ContainerCreated \<or>
      ensure_container env = Inr ContainerAlreadyExists"
    by (auto simp: ensure_container_def)
  then show ?thesis
    using blob wr g
    by (auto simp: job_means_def process_nutritional_data_from_azurite_def)
qed

lemma groupby_mean_df_completes:
  assumes d: "d \<in> set (columns df)"
    and num: "is_numeric df p" "is_numeric df b" "is_numeric df f"
  shows "\<exists>j. groupby_mean_df df d p b f = Inr j"
proof -
  obtain ks where ks: "key_col df d = Inr ks"
    using key_col_column [OF d] by blast
  obtain ps bs fs where cols: "num_col df p = Inr ps" "num_col df b = Inr bs"
    "num_col df f = Inr fs"
    using num num_col_numeric by meson
  show ?thesis
    by (simp add: groupby_mean_df_def ks cols)
qed

text \<open>
  C5, as amended. For every table that the pipeline accepts, whose header has the
  spellings \<^verbatim>\<open>Diet_type\<close>, \<^verbatim>\<open>Protein(g)\<close>, \<^verbatim>\<open>Carbs(g)\<close>, \<^verbatim>\<open>Fat(g)\<close> with the three
  macro columns numeric, and in which these four columns have no missing numeric value:
  a run of the remote job on that table (container created or already there, file
  written) and the pipeline both complete, and the pipeline's aggregate is the job's
  list of records sorted by mean protein; the two hold the same records.
\<close>

theorem job_means_agree_without_gaps:
  assumes acc: "None \<notin> set (required df)"
    and d: "''Diet_type'' \<in> set (columns df)"
    and num: "is_numeric df ''Protein(g)''" "is_numeric df ''Carbs(g)''" "is_numeric df ''Fat(g)''"
    and gaps: "no_gaps df ''Diet_type''" "no_gaps df ''Protein(g)''" "no_gaps df ''Carbs(g)''"
      "no_gaps df ''Fat(g)''"
    and c: "create_container env = None \<or> create_container env = Some ResourceExistsError"
    and blob: "download_blob env = Inr df" and wr: "open_results env = None"
  shows "\<exists>j t. job_means env = Inr j \<and> pipeline_means df = Inr t \<and>
           t = sort_values_desc mean_protein j \<and> set t = set j"
proof -
  obtain j where j: "groupby_mean_df df ''Diet_type'' ''Protein(g)'' ''Carbs(g)'' ''Fat(g)'' = Inr j"
    using groupby_mean_df_completes [OF d num] by blast
  have job: "job_means env = Inr j"
    by (rule job_means_completes [OF c blob wr j])
  obtain r c' where req: "required df =
      [Some ''Diet_type'', Some r, Some c', Some ''Protein(g)'', Some ''Carbs(g)'', Some ''Fat(g)'']"
    using canonical_required [OF acc d num] by blast
  obtain a where a: "snd (data_analysis df) = Inr a"
    using data_analysis_completes [OF req num] by blast
  have "avg_macros (clean df) ''Diet_type'' ''Protein(g)'' ''Carbs(g)'' ''Fat(g)'' =
      Inr (an_avg_macros a)"
    by (rule data_analysis_avg_macros [OF req a])
  then have "an_avg_macros a = sort_values_desc mean_protein j"
    by (simp add: avg_macros_def groupby_mean_df_clean [OF gaps] j)
  then have pipe: "pipeline_means df = Inr (sort_values_desc mean_protein j)"
    by (simp add: pipeline_means_def a)
  show ?thesis
    using job pipe set_sort_values_desc [of mean_protein j] by blast
qed

theorem job_means_agree_without_gaps_witness:
  "None \<notin> set (required keto_dash_df) \<and>
   ''Diet_type'' \<in> set (columns keto_dash_df) \<and>
   is_numeric keto_dash_df ''Protein(g)'' \<and> is_numeric keto_dash_df ''Carbs(g)'' \<and>
   is_numeric keto_dash_df ''Fat(g)'' \<and>
   no_gaps keto_dash_df ''Diet_type'' \<and> no_gaps keto_dash_df ''Protein(g)'' \<and>
   no_gaps keto_dash_df ''Carbs(g)'' \<and> no_gaps keto_dash_df ''Fat(g)'' \<and>
   create_container (container_exists keto_dash_df) = Some ResourceExistsError \<and>
   download_blob (container_exists keto_dash_df) = Inr keto_dash_df \<and>
   open_results (container_exists keto_dash_df) = None \<and>
   (\<exists>j t. job_means (container_exists keto_dash_df) = Inr j \<and>
          pipeline_means keto_dash_df = Inr t \<and>
          t = sort_values_desc mean_protein j \<and> set t = set j)"
proof -
  have acc: "None \<notin> set (required keto_dash_df)"
    by (simp add: required_def keto_dash_df_def columns_def diet_names_def recipe_names_def
        cuisine_names_def protein_names_def carbs_names_def fat_names_def)
  have d: "''Diet_type'' \<in> set (columns keto_dash_df)"
    by (simp add: keto_dash_df_def columns_def)
  have num: "is_numeric keto_dash_df ''Protein(g)''" "is_numeric keto_dash_df ''Carbs(g)''"
    "is_numeric keto_dash_df ''Fat(g)''"
    by (simp_all add: is_numeric_def keto_dash_df_def)
  have gaps: "no_gaps keto_dash_df ''Diet_type''" "no_gaps keto_dash_df ''Protein(g)''"
    "no_gaps keto_dash_df ''Carbs(g)''" "no_gaps keto_dash_df ''Fat(g)''"
    by (simp_all add: no_gaps_def keto_dash_df_def isna_any_def)
  have c: "create_container (container_exists keto_dash_df) = Some ResourceExistsError"
    and blob: "download_blob (container_exists keto_dash_df) = Inr keto_dash_df"
    and wr: "open_results (container_exists keto_dash_df) = None"
    by (simp_all add: container_exists_def)
  have c': "create_container (container_exists keto_dash_df) = None \<or>
      create_container (container_exists keto_dash_df) = Some ResourceExistsError"
    using c by simp
  show ?thesis
    using acc d num gaps c blob wr
      job_means_agree_without_gaps [OF acc d num gaps c' blob wr]
    by blast
qed


text \<open>
  C5 as stated fails. On \<open>gap_df\<close> the protein value of the second record is missing:
  the pipeline fills it with the column mean 25 before grouping and reports mean
  protein 35/2 for diet type A, the remote job skips it and writes 10. On
  \<open>plain_header_df\<close> the pipeline resolves the columns and reports the means, the remote
  job raises \<^verbatim>\<open>KeyError\<close> on its fixed column name.
\<close>

theorem job_means_differ_counterexample:
  "pipeline_means gap_df =
     Inr [\<lparr>diet_type = Str ''B'', mean_protein = Some 40, mean_carbs = Some 8, mean_fat = Some 5\<rparr>,
          \<lparr>diet_type = Str ''A'', mean_protein = Some (35 / 2), mean_carbs = Some 5, mean_fat = Some 2\<rparr>] \<and>
   job_means (container_exists gap_df) =
     Inr [\<lparr>diet_type = Str ''A'', mean_protein = Some 10, mean_carbs = Some 5, mean_fat = Some 2\<rparr>,
          \<lparr>diet_type = Str ''B'', mean_protein = Some 40, mean_carbs = Some 8, mean_fat = Some 5\<rparr>] \<and>
   pipeline_means plain_header_df =
     Inr [\<lparr>diet_type = Str ''B'', mean_protein = Some 40, mean_carbs = Some 6, mean_fat = Some 3\<rparr>,
          \<lparr>diet_type = Str ''A'', mean_protein = Some 10, mean_carbs = Some 4, mean_fat = Some 1\<rparr>] \<and>
   job_means (container_exists plain_header_df) = Inl (KeyError ''Diet_type'')"
proof (intro conjI)
  show "pipeline_means gap_df =
     Inr [\<lparr>diet_type = Str ''B'', mean_protein = Some 40, mean_carbs = Some 8, mean_fat = Some 5\<rparr>,
          \<lparr>diet_type = Str ''A'', mean_protein = Some (35 / 2), mean_carbs = Some 5, mean_fat = Some 2\<rparr>]"
    by (simp add: pipeline_means_def data_analysis_def Let_def required_def columns_def clean_def
      numeric_cols_def gap_df_def diet_names_def recipe_names_def cuisine_names_def
      protein_names_def carbs_names_def fat_names_def clean_step_def isna_any_def fillna_def
      analyse_def
      avg_macros_def groupby_mean_df_def key_col_def num_col_def cells_def groupby_mean_def
      group_keys_def group_vals_def mean_def sort_values_desc_def desc_key_def top5_by_diet_def)
  show "job_means (container_exists gap_df) =
     Inr [\<lparr>diet_type = Str ''A'', mean_protein = Some 10, mean_carbs = Some 5, mean_fat = Some 2\<rparr>,
          \<lparr>diet_type = Str ''B'', mean_protein = Some 40, mean_carbs = Some 8, mean_fat = Some 5\<rparr>]"
    by (simp add: job_means_def container_exists_def process_nutritional_data_from_azurite_def
      ensure_container_def gap_df_def
      groupby_mean_df_def key_col_def num_col_def cells_def groupby_mean_def
      group_keys_def group_vals_def mean_def)
  show "pipeline_means plain_header_df =
     Inr [\<lparr>diet_type = Str ''B'', mean_protein = Some 40, mean_carbs = Some 6, mean_fat = Some 3\<rparr>,
          \<lparr>diet_type = Str ''A'', mean_protein = Some 10, mean_carbs = Some 4, mean_fat = Some 1\<rparr>]"
    by (simp add: pipeline_means_def data_analysis_def Let_def required_def columns_def clean_def
      numeric_cols_def plain_header_df_def diet_names_def recipe_names_def cuisine_names_def
      protein_names_def carbs_names_def fat_names_def clean_step_def isna_any_def fillna_def
      analyse_def
      avg_macros_def groupby_mean_df_def key_col_def num_col_def cells_def groupby_mean_def
      group_keys_def group_vals_def mean_def sort_values_desc_def desc_key_def top5_by_diet_def)
  show "job_means (container_exists plain_header_df) = Inl (KeyError ''Diet_type'')"
    by (simp add: job_means_def container_exists_def process_nutritional_data_from_azurite_def
      ensure_container_def plain_header_df_def groupby_mean_df_def key_col_def)
qed

end
